theory Spec2Isabelle
  imports Main "HOL-Library.Sublist"
begin

section \<open>JavaScript values\<close>

text \<open>
  The webhook responses are parsed JSON, and \<open>transformCustomerData\<close> takes its
  argument as \<open>any\<close>. A value is one of the JSON shapes, or \<open>undefined\<close> (what reading
  an absent property gives). A number is kept as its canonical string form, the result of
  \<open>String(n)\<close> (\<open>''5''\<close>, \<open>''1.5''\<close>, \<open>''NaN''\<close>; both zeros are \<open>''0''\<close>): the code
  never computes with a number of its input, it tests it for truthiness, converts it to a
  string and stores it. An object is the list of its properties, each key once; a
  property is read at the first entry of its key.
\<close>

datatype jv =
    JUndef
  | JNull
  | JBool bool
  | JNum string
  | JStr string
  | JArr "jv list"
  | JObj "(string \<times> jv) list"

text \<open>The operand tests of \<open>||\<close>, \<open>!\<close> and \<open>? :\<close> (truthiness) and of \<open>??\<close> (nullishness).\<close>

fun truthy :: "jv \<Rightarrow> bool" where
  "truthy JUndef = False"
| "truthy JNull = False"
| "truthy (JBool b) = b"
| "truthy (JNum s) = (s \<noteq> ''0'' \<and> s \<noteq> ''NaN'')"
| "truthy (JStr s) = (s \<noteq> [])"
| "truthy (JArr xs) = True"
| "truthy (JObj kvs) = True"

fun nullish :: "jv \<Rightarrow> bool" where
  "nullish JUndef = True"
| "nullish JNull = True"
| "nullish v = False"

text \<open>
  \<open>a || b\<close> and \<open>a ?? b\<close>. A chain \<open>a || b || c\<close> groups to the left in the source and to
  the right here; both give the first truthy operand, or the last one.
\<close>

definition js_or :: "jv \<Rightarrow> jv \<Rightarrow> jv" where
  "js_or a b = (if truthy a then a else b)"

definition js_coalesce :: "jv \<Rightarrow> jv \<Rightarrow> jv" where
  "js_coalesce a b = (if nullish a then b else a)"

text \<open>
  \<open>v.k\<close> for a value \<open>v\<close> that is neither \<open>null\<close> nor \<open>undefined\<close> and a key \<open>k\<close> that no
  prototype defines (every key the code reads is such a key): the property of an object,
  \<open>undefined\<close> on anything else. Reading a property of \<open>null\<close> or \<open>undefined\<close> throws;
  the callers test for that first.
\<close>

definition js_prop :: "jv \<Rightarrow> string \<Rightarrow> jv" where
  "js_prop v k = (case v of
       JObj kvs \<Rightarrow> (case map_of kvs k of Some x \<Rightarrow> x | None \<Rightarrow> JUndef)
     | _ \<Rightarrow> JUndef)"

text \<open>\<open>Array.isArray\<close>.\<close>

fun Array_isArray :: "jv \<Rightarrow> bool" where
  "Array_isArray (JArr xs) = True"
| "Array_isArray v = False"

section \<open>Exceptions and the combinators of a throwing callback\<close>

text \<open>
  \<open>TypeError\<close> is what reading a property of \<open>null\<close> or \<open>undefined\<close> throws, and what
  converting an object to a primitive throws when no method gives one; its message is the
  engine's. \<open>Error m\<close> is \<open>new Error(m)\<close>, or a rejection carrying the message \<open>m\<close>.
\<close>

datatype exn = TypeError | Error string

text \<open>\<open>xs.filter(p)\<close> and \<open>xs.map(f)\<close> where the callback may throw: the first throw ends the call.\<close>

fun filterE :: "('a \<Rightarrow> exn + bool) \<Rightarrow> 'a list \<Rightarrow> exn + 'a list" where
  "filterE p [] = Inr []"
| "filterE p (x # xs) =
     (case p x of
        Inl e \<Rightarrow> Inl e
      | Inr b \<Rightarrow> (case filterE p xs of
                   Inl e \<Rightarrow> Inl e
                 | Inr ys \<Rightarrow> Inr (if b then x # ys else ys)))"

fun mapE :: "('a \<Rightarrow> exn + 'b) \<Rightarrow> 'a list \<Rightarrow> exn + 'b list" where
  "mapE f [] = Inr []"
| "mapE f (x # xs) =
     (case f x of
        Inl e \<Rightarrow> Inl e
      | Inr y \<Rightarrow> (case mapE f xs of
                   Inl e \<Rightarrow> Inl e
                 | Inr ys \<Rightarrow> Inr (y # ys)))"

lemma mapE_cong [fundef_cong]:
  "xs = ys \<Longrightarrow> (\<And>x. x \<in> set ys \<Longrightarrow> f x = g x) \<Longrightarrow> mapE f xs = mapE g ys"
  by (induction ys arbitrary: xs) (auto split: sum.splits)

lemma filterE_Inr_filter:
  "filterE p xs = Inr ys \<Longrightarrow> ys = filter (\<lambda>x. p x = Inr True) xs"
  by (induction xs arbitrary: ys) (auto split: sum.splits if_splits)

lemma filterE_Inr_set: "filterE p xs = Inr ys \<Longrightarrow> set ys \<subseteq> set xs"
  by (auto dest: filterE_Inr_filter)

lemma filterE_Inr_total: "filterE p xs = Inr ys \<Longrightarrow> x \<in> set xs \<Longrightarrow> \<exists>b. p x = Inr b"
  by (induction xs arbitrary: ys) (auto split: sum.splits)

section \<open>Conversion to a string\<close>

text \<open>\<open>Array.prototype.join\<close> with the separator \<open>,\<close>, on the strings of the elements.\<close>

fun join_comma :: "string list \<Rightarrow> string" where
  "join_comma [] = []"
| "join_comma [s] = s"
| "join_comma (s # t # ss) = s @ '','' @ join_comma (t # ss)"

text \<open>
  \<open>String(v)\<close>. An array is the join of its elements, where \<open>null\<close> and \<open>undefined\<close>
  elements give the empty string. An object of parsed JSON is converted by the inherited
  \<open>toString\<close> to \<open>[object Object]\<close>, unless it has a property \<open>toString\<close> of its own:
  that value is not callable, the inherited \<open>valueOf\<close> gives the object back, and the
  conversion throws a \<open>TypeError\<close>. So does the conversion of an array holding such an
  object.
\<close>

fun js_String :: "jv \<Rightarrow> exn + string" where
  "js_String JUndef = Inr ''undefined''"
| "js_String JNull = Inr ''null''"
| "js_String (JBool b) = Inr (if b then ''true'' else ''false'')"
| "js_String (JNum s) = Inr s"
| "js_String (JStr s) = Inr s"
| "js_String (JArr xs) =
     (case mapE (\<lambda>x. if nullish x then Inr [] else js_String x) xs of
        Inl e \<Rightarrow> Inl e
      | Inr ss \<Rightarrow> Inr (join_comma ss))"
| "js_String (JObj kvs) =
     (if map_of kvs ''toString'' \<noteq> None then Inl TypeError else Inr ''[object Object]'')"

text \<open>The decimal digits of a natural number, as a template literal prints an index.\<close>

definition digit_char :: "nat \<Rightarrow> char" where
  "digit_char d = ''0123456789'' ! d"

fun string_of_nat :: "nat \<Rightarrow> string" where
  "string_of_nat n =
     (if n < 10 then [digit_char n]
      else string_of_nat (n div 10) @ [digit_char (n mod 10)])"

declare string_of_nat.simps [simp del]

section \<open>The customer entity\<close>

text \<open>
  The \<open>Customer\<close> interface. \<open>transformCustomerData\<close> builds it from untyped data, so only
  \<open>id\<close> (the result of \<open>String\<close>) and \<open>suborgs\<close> (the result of \<open>map\<close>) have the declared
  type for every input; the other fields hold whatever value the record gave.
\<close>

datatype customer = Customer
  (id_c: string)
  (name_c: jv)
  (customer_type: jv)
  (created: jv)
  (client_count: jv)
  (suborgs: "customer list")
  (parent_org_name: jv)
  (email: jv)
  (metadata: jv)

text \<open>
  What the code reads from the platform: \<open>Date.now()\<close> in milliseconds, the number
  \<open>new Date(v).getTime() / 1000\<close> as a function of a value \<open>v\<close> that converts to a
  primitive (\<open>NaN\<close> for a value that is no date), and the text the engine gives the message
  of a \<open>TypeError\<close>.
\<close>

record platform =
  Date_now :: nat
  Date_seconds :: "jv \<Rightarrow> jv"
  TypeError_message :: string

text \<open>
  \<open>new Date(v).getTime() / 1000\<close>. The constructor converts \<open>v\<close> to a primitive first,
  which throws for the values of parsed JSON for which \<open>String(v)\<close> throws.
\<close>

definition new_Date_seconds :: "platform \<Rightarrow> jv \<Rightarrow> exn + jv" where
  "new_Date_seconds env v =
     (case js_String v of Inl e \<Rightarrow> Inl e | Inr s \<Rightarrow> Inr (Date_seconds env v))"

text \<open>
  The value of \<open>created\<close> in the returned object:
  \<open>data.created || (data.CreatedAt ? new Date(data.CreatedAt).getTime() / 1000
  : Math.floor(Date.now() / 1000))\<close>.
\<close>

definition resolved_created :: "platform \<Rightarrow> jv \<Rightarrow> exn + jv" where
  "resolved_created env data =
     (if truthy (js_prop data ''created'') then Inr (js_prop data ''created'')
      else if truthy (js_prop data ''CreatedAt'')
      then new_Date_seconds env (js_prop data ''CreatedAt'')
      else Inr (JNum (string_of_nat (Date_now env div 1000))))"

text \<open>The callback of the \<open>filter\<close> over the raw sub-organisations.\<close>

definition suborg_filter :: "string \<Rightarrow> jv \<Rightarrow> exn + bool" where
  "suborg_filter customerId suborg =
     (if nullish suborg then Inl TypeError
      else
        let suborgRawId = js_coalesce (js_prop suborg ''id'')
                            (js_coalesce (js_prop suborg ''Id'') (js_prop suborg ''ID''))
        in case js_String suborgRawId of
             Inl e \<Rightarrow> Inl e
           | Inr suborgId \<Rightarrow>
               let suborgType = js_or (js_prop suborg ''customer_type'')
                                  (js_or (js_prop suborg ''customerType'') (JStr ''org''))
               in Inr (suborgId \<noteq> customerId \<and> suborgType = JStr ''sub-org''))"

definition rawSubOrgs :: "jv \<Rightarrow> jv" where
  "rawSubOrgs data =
     js_or (js_prop data ''suborgs'')
       (js_or (js_prop data ''subOrgs'') (js_or (js_prop data ''SubOrgs'') (JArr [])))"

lemma size_map_of:
  "map_of kvs k = Some v \<Longrightarrow> size v < Suc (size_list (size_prod (\<lambda>_. 0) size) kvs)"
  by (induction kvs) (auto split: if_splits)

lemma size_elem: "x \<in> set xs \<Longrightarrow> size x \<le> size_list size xs"
  by (induction xs) auto

lemma size_prop_elem: "js_prop v k = JArr xs \<Longrightarrow> x \<in> set xs \<Longrightarrow> size x < size v"
  by (auto simp: js_prop_def split: jv.splits option.splits
      dest!: size_map_of dest: size_elem)

lemma size_rawSubOrgs_elem: "rawSubOrgs data = JArr xs \<Longrightarrow> x \<in> set xs \<Longrightarrow> size x < size data"
  by (auto simp: rawSubOrgs_def js_or_def split: if_splits dest: size_prop_elem)

function transformCustomerData :: "platform \<Rightarrow> jv \<Rightarrow> exn + customer" where
  "transformCustomerData env data =
     (if nullish data then Inl TypeError
      else
        let rawId = js_coalesce (js_prop data ''id'')
                      (js_coalesce (js_prop data ''Id'') (js_prop data ''ID''))
        in case js_String rawId of
             Inl e \<Rightarrow> Inl e
           | Inr customerId \<Rightarrow>
              (case (case rawSubOrgs data of
                       JArr xs \<Rightarrow>
                         (case filterE (suborg_filter customerId) xs of
                            Inl e \<Rightarrow> Inl e
                          | Inr ys \<Rightarrow> mapE (transformCustomerData env) ys)
                     | _ \<Rightarrow> Inr []) of
                 Inl e \<Rightarrow> Inl e
               | Inr transformedSubOrgs \<Rightarrow>
                  (case resolved_created env data of
                     Inl e \<Rightarrow> Inl e
                   | Inr created_value \<Rightarrow>
                       Inr (Customer
                         customerId
                         (js_or (js_prop data ''name'') (js_or (js_prop data ''Name'') (JStr [])))
                         (js_or (js_prop data ''customer_type'')
                            (js_or (js_prop data ''customerType'') (JStr ''org'')))
                         created_value
                         (js_or (js_prop data ''client_count'')
                            (js_or (js_prop data ''clientCount'')
                               (js_or (js_prop data ''ClientCount'') (JNum ''0''))))
                         transformedSubOrgs
                         (js_or (js_prop data ''parent_org_name'')
                            (js_or (js_prop data ''parentOrgName'') (js_prop data ''ParentOrgName'')))
                         (js_or (js_prop data ''email'') (js_prop data ''Email''))
                         (js_or (js_prop data ''metadata'') (JObj []))))))"
  by pat_completeness auto
termination
proof (relation "measure (\<lambda>(env, data). size data)", goal_cases)
  case 1
  show ?case by simp
next
  case (2 env data rawId customerId xs ys x)
  from 2 have "x \<in> set xs" using filterE_Inr_set by fastforce
  with 2 show ?case by (simp add: size_rawSubOrgs_elem)
qed

declare transformCustomerData.simps [simp del]

text \<open>
  Names for what the function computes on the way: the id it resolves (or the exception
  of the conversion), the kind it resolves,
  the array it filters (empty when \<open>rawSubOrgs\<close> is not an array) and the result of the
  \<open>filter\<close> and \<open>map\<close> over it.
\<close>

definition resolved_id :: "jv \<Rightarrow> exn + string" where
  "resolved_id data =
     js_String (js_coalesce (js_prop data ''id'') (js_coalesce (js_prop data ''Id'') (js_prop data ''ID'')))"

definition resolved_type :: "jv \<Rightarrow> jv" where
  "resolved_type data =
     js_or (js_prop data ''customer_type'') (js_or (js_prop data ''customerType'') (JStr ''org''))"

definition raw_children :: "jv \<Rightarrow> jv list" where
  "raw_children data = (case rawSubOrgs data of JArr xs \<Rightarrow> xs | _ \<Rightarrow> [])"

definition transformedSubOrgs :: "platform \<Rightarrow> string \<Rightarrow> jv \<Rightarrow> exn + customer list" where
  "transformedSubOrgs env customerId data =
     (case rawSubOrgs data of
        JArr xs \<Rightarrow>
          (case filterE (suborg_filter customerId) xs of
             Inl e \<Rightarrow> Inl e
           | Inr ys \<Rightarrow> mapE (transformCustomerData env) ys)
      | _ \<Rightarrow> Inr [])"

lemma size_raw_children: "r \<in> set (raw_children data) \<Longrightarrow> size r < size data"
  by (auto simp: raw_children_def split: jv.splits dest: size_rawSubOrgs_elem [OF sym])

text \<open>
  A record that carries its own timestamp: \<open>created\<close> or \<open>CreatedAt\<close> is truthy, in the
  record and in every raw child that passes the filter, at every depth.
\<close>

function stamped :: "jv \<Rightarrow> bool" where
  "stamped data =
     ((truthy (js_prop data ''created'') \<or> truthy (js_prop data ''CreatedAt'')) \<and>
      (\<forall>r \<in> set (filter (\<lambda>r. resolved_id r \<noteq> resolved_id data \<and> resolved_type r = JStr ''sub-org'')
                     (raw_children data)).
         stamped r))"
  by pat_completeness auto
termination
  by (relation "measure size") (auto simp: size_raw_children)

declare stamped.simps [simp del]

text \<open>An entity with \<open>created\<close> replaced by \<open>v\<close>, in the entity and in its sub-organisations.\<close>

fun with_created :: "jv \<Rightarrow> customer \<Rightarrow> customer" where
  "with_created v (Customer i n t cr cc subs p e m) =
     Customer i n t v cc (map (with_created v) subs) p e m"

text \<open>A result with \<open>F\<close> applied to the entity returned, and a thrown exception as it is.\<close>

fun on_result :: "('a \<Rightarrow> 'b) \<Rightarrow> exn + 'a \<Rightarrow> exn + 'b" where
  "on_result F (Inl e) = Inl e"
| "on_result F (Inr c) = Inr (F c)"

text \<open>
  An entity as the argument of a second call: the object with the nine properties that
  \<open>transformCustomerData\<close> returned.
\<close>

fun customer_data :: "customer \<Rightarrow> jv" where
  "customer_data (Customer i n t cr cc subs p e m) =
     JObj [(''id'', JStr i), (''name'', n), (''customer_type'', t), (''created'', cr),
           (''client_count'', cc), (''suborgs'', JArr (map customer_data subs)),
           (''parent_org_name'', p), (''email'', e), (''metadata'', m)]"

text \<open>
  What every returned entity satisfies, at every depth: the defaults have been applied and
  the sub-organisations have passed the filter.
\<close>

fun normalized :: "customer \<Rightarrow> bool" where
  "normalized (Customer i n t cr cc subs p e m) =
     ((truthy n \<or> n = JStr []) \<and> truthy t \<and> (truthy cc \<or> cc = JNum ''0'') \<and> truthy m \<and>
      (\<forall>s \<in> set subs. customer_type s = JStr ''sub-org'' \<and> id_c s \<noteq> i \<and> normalized s))"

text \<open>
  The entities that a second call leaves as they are: \<open>created\<close> is truthy, and
  \<open>parent_org_name\<close> and \<open>email\<close> are truthy or \<open>undefined\<close>, at every depth.
\<close>

fun settled :: "customer \<Rightarrow> bool" where
  "settled (Customer i n t cr cc subs p e m) =
     (truthy cr \<and> (truthy p \<or> p = JUndef) \<and> (truthy e \<or> e = JUndef) \<and>
      (\<forall>s \<in> set subs. settled s))"

section \<open>The flattened list of the home page and of the batch page\<close>

text \<open>
  An element of \<open>allCustomersFlattened\<close>: the fields of a customer (\<open>...customer\<close>, or
  \<open>...suborg\<close> with \<open>parent_org_name\<close> replaced), \<open>uniqueKey\<close>, and \<open>parent_org_id\<close>,
  which only the batch page sets.
\<close>

record flattened =
  entity :: customer
  uniqueKey :: string
  parent_org_id :: "string option"

definition with_parent_org_name :: "jv \<Rightarrow> customer \<Rightarrow> customer" where
  "with_parent_org_name v c =
     Customer (id_c c) (name_c c) (customer_type c) (created c) (client_count c)
       (suborgs c) v (email c) (metadata c)"

text \<open>\<open>suborg.id || index\<close> inside the template literal: the id, or the digits of the index.\<close>

definition id_or_index :: "customer \<Rightarrow> nat \<Rightarrow> string" where
  "id_or_index suborg index = (if id_c suborg \<noteq> [] then id_c suborg else string_of_nat index)"

text \<open>The home page: one step of the \<open>reduce\<close>, and the \<open>reduce\<close> from the empty list.\<close>

definition flatten_step :: "flattened list \<Rightarrow> customer \<Rightarrow> flattened list" where
  "flatten_step acc customer =
     (let acc1 = acc @ [\<lparr>entity = customer, uniqueKey = ''org-'' @ id_c customer,
                         parent_org_id = None\<rparr>]
      in if suborgs customer \<noteq> [] then
           acc1 @ map (\<lambda>(index, suborg).
                    \<lparr>entity = with_parent_org_name (name_c customer) suborg,
                     uniqueKey = ''suborg-'' @ id_c customer @ ''-'' @ id_or_index suborg index,
                     parent_org_id = None\<rparr>)
                  (enumerate 0 (suborgs customer))
         else acc1)"

definition allCustomersFlattened :: "customer list \<Rightarrow> flattened list" where
  "allCustomersFlattened customers = foldl flatten_step [] customers"

text \<open>The batch page: the same, with \<open>parent_org_id\<close> on the rows of the sub-organisations.\<close>

definition flatten_step_batch :: "flattened list \<Rightarrow> customer \<Rightarrow> flattened list" where
  "flatten_step_batch acc customer =
     (let acc1 = acc @ [\<lparr>entity = customer, uniqueKey = ''org-'' @ id_c customer,
                         parent_org_id = None\<rparr>]
      in if suborgs customer \<noteq> [] then
           acc1 @ map (\<lambda>(index, suborg).
                    \<lparr>entity = with_parent_org_name (name_c customer) suborg,
                     uniqueKey = ''suborg-'' @ id_c customer @ ''-'' @ id_or_index suborg index,
                     parent_org_id = Some (id_c customer)\<rparr>)
                  (enumerate 0 (suborgs customer))
         else acc1)"

definition allCustomersFlattened_batch :: "customer list \<Rightarrow> flattened list" where
  "allCustomersFlattened_batch customers = foldl flatten_step_batch [] customers"

definition allSubOrgs :: "customer list \<Rightarrow> flattened list" where
  "allSubOrgs customers =
     filter (\<lambda>c. customer_type (entity c) = JStr ''sub-org'') (allCustomersFlattened_batch customers)"

text \<open>
  The rows as the specification words them: a top-level entity \<open>E\<close> gives one row wrapping
  \<open>E\<close> with key \<open>org-\<close> and its id; each child \<open>C\<close> of \<open>E\<close>, at index \<open>i\<close>, gives one row
  wrapping \<open>C\<close> with the name of \<open>E\<close> as \<open>parent_org_name\<close> and key \<open>suborg-\<close>, the id of
  \<open>E\<close>, a hyphen and the id of \<open>C\<close> or \<open>i\<close>; the rows of \<open>E\<close> are its own row and then the
  rows of its children in stored order.
\<close>

definition spec_org_row :: "customer \<Rightarrow> flattened" where
  "spec_org_row e = \<lparr>entity = e, uniqueKey = ''org-'' @ id_c e, parent_org_id = None\<rparr>"

definition spec_suborg_row :: "customer \<Rightarrow> nat \<Rightarrow> customer \<Rightarrow> flattened" where
  "spec_suborg_row e i c =
     \<lparr>entity = with_parent_org_name (name_c e) c,
      uniqueKey = ''suborg-'' @ id_c e @ ''-'' @ id_or_index c i,
      parent_org_id = None\<rparr>"

definition spec_rows :: "customer \<Rightarrow> flattened list" where
  "spec_rows e = spec_org_row e # map (\<lambda>(i, c). spec_suborg_row e i c) (enumerate 0 (suborgs e))"

text \<open>The last part of the keys of the children of an entity, in order.\<close>

definition key_suffixes :: "customer \<Rightarrow> string list" where
  "key_suffixes e = map (\<lambda>(i, c). id_or_index c i) (enumerate 0 (suborgs e))"



section \<open>The customer provider\<close>

text \<open>The state of \<open>CustomerProvider\<close>: its three \<open>useState\<close> cells.\<close>

record provider =
  customers :: "customer list"
  loading :: bool
  error :: "string option"

text \<open>
  What \<open>await fetch(url)\<close> gives is \<open>exn + response\<close>: a rejection, or a response with
  \<open>ok\<close>, \<open>statusText\<close> and the outcome of \<open>await response.json()\<close>.
\<close>

datatype response = Response (ok: bool) (statusText: string) (json: "exn + jv")

text \<open>
  The URL of a webhook is an environment variable, a string or \<open>undefined\<close>;
  \<open>!webhookUrl\<close> holds for \<open>undefined\<close> and for the empty string.
\<close>

definition configured :: "string option \<Rightarrow> bool" where
  "configured webhookUrl = (case webhookUrl of None \<Rightarrow> False | Some url \<Rightarrow> url \<noteq> [])"

text \<open>\<open>err.message\<close>, for the exceptions of this model (all are instances of \<open>Error\<close>).\<close>

definition message :: "platform \<Rightarrow> exn \<Rightarrow> string" where
  "message env e = (case e of TypeError \<Rightarrow> TypeError_message env | Error m \<Rightarrow> m)"

text \<open>An entry of \<open>invalidCustomers\<close>: the index, the reason and the raw record.\<close>

datatype invalid = Invalid (invalid_index: nat) (invalid_reason: string) (invalid_data: jv)

text \<open>The body of the \<open>forEach\<close> in \<open>refreshCustomers\<close>, on the two lists it pushes to.\<close>

definition validate_step ::
  "platform \<Rightarrow> customer list \<times> invalid list \<Rightarrow> nat \<times> jv \<Rightarrow> customer list \<times> invalid list" where
  "validate_step env acc entry =
     (case (acc, entry) of ((validatedCustomers, invalidCustomers), (index, rawCustomer)) \<Rightarrow>
        if \<not> truthy rawCustomer then
          (validatedCustomers, invalidCustomers @ [Invalid index ''null or undefined'' rawCustomer])
        else
          (case transformCustomerData env rawCustomer of
             Inl err \<Rightarrow>
               (validatedCustomers, invalidCustomers @ [Invalid index ''transform error'' rawCustomer])
           | Inr customer \<Rightarrow>
               if id_c customer = [] then
                 (validatedCustomers, invalidCustomers @ [Invalid index ''missing id'' rawCustomer])
               else if \<not> truthy (name_c customer) then
                 (validatedCustomers, invalidCustomers @ [Invalid index ''missing name'' rawCustomer])
               else (validatedCustomers @ [customer], invalidCustomers)))"

text \<open>
  \<open>refreshCustomers\<close>, given the configured URL (if any) and the outcome of the fetch. It
  returns the new state and \<open>invalidCustomers\<close>; every exception is caught inside, so it has
  no exceptional result.
\<close>

definition refreshCustomers ::
  "platform \<Rightarrow> string option \<Rightarrow> exn + response \<Rightarrow> provider \<Rightarrow> provider \<times> invalid list" where
  "refreshCustomers env webhookUrl fetched st =
     (let st1 = st\<lparr>loading := True, error := None\<rparr>;
          caught = (\<lambda>e. (st1\<lparr>error := Some (message env e), loading := False\<rparr>, []))
      in if \<not> configured webhookUrl then (st1\<lparr>customers := [], loading := False\<rparr>, [])
         else
            (case fetched of
               Inl e \<Rightarrow> caught e
             | Inr response \<Rightarrow>
                 if \<not> ok response then
                   caught (Error (''Failed to fetch customers: '' @ statusText response))
                 else
                   (case json response of
                      Inl e \<Rightarrow> caught e
                    | Inr data \<Rightarrow>
                       (case data of
                          JArr xs \<Rightarrow>
                            (case foldl (validate_step env) ([], []) (enumerate 0 xs) of
                               (validatedCustomers, invalidCustomers) \<Rightarrow>
                                 (st1\<lparr>customers := validatedCustomers, loading := False\<rparr>,
                                  invalidCustomers))
                        | _ \<Rightarrow> (st1\<lparr>customers := [], loading := False\<rparr>, [])))))"

text \<open>
  The \<open>try\<close> block of \<open>addCustomer\<close> up to the new customer, and \<open>addCustomer\<close>: the new
  state, and the customer returned or the exception rethrown.
\<close>

definition addCustomer_try :: "platform \<Rightarrow> string option \<Rightarrow> exn + response \<Rightarrow> exn + customer" where
  "addCustomer_try env webhookUrl fetched =
     (if \<not> configured webhookUrl then
        Inl (Error ''NEXT_PUBLIC_WEBHOOK_CREATE_CUSTOMER is not configured'')
      else
         (case fetched of
            Inl e \<Rightarrow> Inl e
          | Inr response \<Rightarrow>
              if \<not> ok response then
                Inl (Error (''Failed to create customer: '' @ statusText response))
              else
                (case json response of
                   Inl e \<Rightarrow> Inl e
                 | Inr rawCustomer \<Rightarrow>
                    (case (case rawCustomer of
                             JArr [] \<Rightarrow> Inl (Error ''Webhook returned empty array'')
                           | JArr (x # xs) \<Rightarrow> Inr x
                           | _ \<Rightarrow> Inr rawCustomer) of
                       Inl e \<Rightarrow> Inl e
                     | Inr rawCustomer \<Rightarrow>
                        (case transformCustomerData env rawCustomer of
                           Inl e \<Rightarrow> Inl e
                         | Inr newCustomer \<Rightarrow>
                             if id_c newCustomer = [] \<or> \<not> truthy (name_c newCustomer) then
                               Inl (Error ''Invalid response from webhook - missing required fields (id, name)'')
                             else Inr newCustomer)))))"

definition addCustomer ::
  "platform \<Rightarrow> string option \<Rightarrow> exn + response \<Rightarrow> provider \<Rightarrow> provider \<times> (exn + customer)" where
  "addCustomer env webhookUrl fetched st =
     (case addCustomer_try env webhookUrl fetched of
        Inl err \<Rightarrow> (st\<lparr>error := Some (message env err)\<rparr>, Inl err)
      | Inr newCustomer \<Rightarrow>
          (st\<lparr>customers := customers st @ [newCustomer], error := None\<rparr>, Inr newCustomer))"

text \<open>
  \<open>Partial<Customer>\<close>: each field present or not, and the spread
  \<open>{ ...customer, ...updates }\<close>, where a present field replaces the customer's.
\<close>

record updates =
  u_id :: "string option"
  u_name :: "jv option"
  u_customer_type :: "jv option"
  u_created :: "jv option"
  u_client_count :: "jv option"
  u_suborgs :: "customer list option"
  u_parent_org_name :: "jv option"
  u_email :: "jv option"
  u_metadata :: "jv option"

definition spread :: "customer \<Rightarrow> updates \<Rightarrow> customer" where
  "spread c u =
     Customer
       (case u_id u of None \<Rightarrow> id_c c | Some v \<Rightarrow> v)
       (case u_name u of None \<Rightarrow> name_c c | Some v \<Rightarrow> v)
       (case u_customer_type u of None \<Rightarrow> customer_type c | Some v \<Rightarrow> v)
       (case u_created u of None \<Rightarrow> created c | Some v \<Rightarrow> v)
       (case u_client_count u of None \<Rightarrow> client_count c | Some v \<Rightarrow> v)
       (case u_suborgs u of None \<Rightarrow> suborgs c | Some v \<Rightarrow> v)
       (case u_parent_org_name u of None \<Rightarrow> parent_org_name c | Some v \<Rightarrow> v)
       (case u_email u of None \<Rightarrow> email c | Some v \<Rightarrow> v)
       (case u_metadata u of None \<Rightarrow> metadata c | Some v \<Rightarrow> v)"

definition updateCustomer :: "string \<Rightarrow> updates \<Rightarrow> provider \<Rightarrow> provider" where
  "updateCustomer i upd st =
     st\<lparr>customers := map (\<lambda>customer. if id_c customer = i then spread customer upd else customer)
                        (customers st),
        error := None\<rparr>"

definition deleteCustomer :: "string \<Rightarrow> provider \<Rightarrow> provider" where
  "deleteCustomer i st =
     st\<lparr>customers := filter (\<lambda>customer. id_c customer \<noteq> i) (customers st), error := None\<rparr>"

definition getCustomer :: "provider \<Rightarrow> string \<Rightarrow> customer option" where
  "getCustomer st i = find (\<lambda>customer. id_c customer = i) (customers st)"

section \<open>Properties of the normalisation\<close>

lemma mapE_Inr_all2: "mapE f xs = Inr ys \<Longrightarrow> list_all2 (\<lambda>x y. f x = Inr y) xs ys"
  by (induction xs arbitrary: ys) (auto split: sum.splits)

lemma suborg_filter_Inr:
  "suborg_filter pid r = Inr b \<Longrightarrow>
     \<not> nullish r \<and> (\<exists>i. resolved_id r = Inr i) \<and>
     b = (resolved_id r \<noteq> Inr pid \<and> resolved_type r = JStr ''sub-org'')"
  by (auto simp: suborg_filter_def resolved_id_def resolved_type_def Let_def
      split: if_splits sum.splits)

lemma filterE_suborg_filter:
  assumes "filterE (suborg_filter pid) xs = Inr ys"
  shows "ys = filter (\<lambda>r. resolved_id r \<noteq> Inr pid \<and> resolved_type r = JStr ''sub-org'') xs"
    and "\<forall>r \<in> set xs. \<not> nullish r"
proof -
  have total: "suborg_filter pid r =
      Inr (resolved_id r \<noteq> Inr pid \<and> resolved_type r = JStr ''sub-org'') \<and> \<not> nullish r"
    if "r \<in> set xs" for r
  proof -
    from filterE_Inr_total [OF assms that] obtain b where "suborg_filter pid r = Inr b" ..
    then show ?thesis using suborg_filter_Inr by blast
  qed
  then show "\<forall>r \<in> set xs. \<not> nullish r" by blast
  have "filter (\<lambda>x. suborg_filter pid x = Inr True) xs =
        filter (\<lambda>r. resolved_id r \<noteq> Inr pid \<and> resolved_type r = JStr ''sub-org'') xs"
    by (rule filter_cong) (auto simp: total)
  with filterE_Inr_filter [OF assms]
  show "ys = filter (\<lambda>r. resolved_id r \<noteq> Inr pid \<and> resolved_type r = JStr ''sub-org'') xs"
    by simp
qed

lemma transformedSubOrgs_Inr:
  assumes "transformedSubOrgs env pid data = Inr subs"
  shows "list_all2 (\<lambda>r s. transformCustomerData env r = Inr s)
           (filter (\<lambda>r. resolved_id r \<noteq> Inr pid \<and> resolved_type r = JStr ''sub-org'')
              (raw_children data))
           subs"
    and "\<forall>r \<in> set (raw_children data). \<not> nullish r"
proof -
  show "list_all2 (\<lambda>r s. transformCustomerData env r = Inr s)
           (filter (\<lambda>r. resolved_id r \<noteq> Inr pid \<and> resolved_type r = JStr ''sub-org'')
              (raw_children data))
           subs"
  proof (cases "rawSubOrgs data")
    case (JArr xs)
    with assms obtain ys where f: "filterE (suborg_filter pid) xs = Inr ys"
      and m: "mapE (transformCustomerData env) ys = Inr subs"
      by (auto simp: transformedSubOrgs_def split: sum.splits)
    from filterE_suborg_filter(1) [OF f] mapE_Inr_all2 [OF m] JArr
    show ?thesis by (simp add: raw_children_def)
  qed (use assms in \<open>auto simp: transformedSubOrgs_def raw_children_def\<close>)
  show "\<forall>r \<in> set (raw_children data). \<not> nullish r"
  proof (cases "rawSubOrgs data")
    case (JArr xs)
    with assms obtain ys where f: "filterE (suborg_filter pid) xs = Inr ys"
      by (auto simp: transformedSubOrgs_def split: sum.splits)
    from filterE_suborg_filter(2) [OF f] JArr show ?thesis by (simp add: raw_children_def)
  qed (auto simp: raw_children_def)
qed

lemma transform_unfold:
  "transformCustomerData env data =
     (if nullish data then Inl TypeError
      else case resolved_id data of
             Inl e \<Rightarrow> Inl e
           | Inr customerId \<Rightarrow>
              (case transformedSubOrgs env customerId data of
                 Inl e \<Rightarrow> Inl e
               | Inr subs \<Rightarrow>
                  (case resolved_created env data of
                     Inl e \<Rightarrow> Inl e
                   | Inr created_value \<Rightarrow>
                       Inr (Customer
                         customerId
                         (js_or (js_prop data ''name'') (js_or (js_prop data ''Name'') (JStr [])))
                         (resolved_type data)
                         created_value
                         (js_or (js_prop data ''client_count'')
                            (js_or (js_prop data ''clientCount'')
                               (js_or (js_prop data ''ClientCount'') (JNum ''0''))))
                         subs
                         (js_or (js_prop data ''parent_org_name'')
                            (js_or (js_prop data ''parentOrgName'') (js_prop data ''ParentOrgName'')))
                         (js_or (js_prop data ''email'') (js_prop data ''Email''))
                         (js_or (js_prop data ''metadata'') (JObj []))))))"
  unfolding transformedSubOrgs_def resolved_id_def resolved_type_def
  by (subst transformCustomerData.simps) (unfold Let_def, rule refl)

lemma transform_Inr:
  assumes "transformCustomerData env data = Inr c"
  shows "\<not> nullish data"
    and "resolved_id data = Inr (id_c c)"
    and "name_c c = js_or (js_prop data ''name'') (js_or (js_prop data ''Name'') (JStr []))"
    and "customer_type c = resolved_type data"
    and "resolved_created env data = Inr (created c)"
    and "client_count c = js_or (js_prop data ''client_count'')
                    (js_or (js_prop data ''clientCount'')
                       (js_or (js_prop data ''ClientCount'') (JNum ''0'')))"
    and "parent_org_name c = js_or (js_prop data ''parent_org_name'')
                    (js_or (js_prop data ''parentOrgName'') (js_prop data ''ParentOrgName''))"
    and "email c = js_or (js_prop data ''email'') (js_prop data ''Email'')"
    and "metadata c = js_or (js_prop data ''metadata'') (JObj [])"
    and "transformedSubOrgs env (id_c c) data = Inr (suborgs c)"
  using assms unfolding transform_unfold [of env data]
  by (auto split: if_splits sum.splits)

lemma all2_transform_ids:
  "list_all2 (\<lambda>r s. transformCustomerData env r = Inr s) rs ss \<Longrightarrow>
     map (\<lambda>s. Inr (id_c s)) ss = map resolved_id rs"
  by (induction rs ss rule: list_all2_induct) (auto dest: transform_Inr(2))

lemma all2_right_witness:
  "list_all2 P xs ys \<Longrightarrow> y \<in> set ys \<Longrightarrow> \<exists>x \<in> set xs. P x y"
  by (induction xs ys rule: list_all2_induct) auto

text \<open>
  C4. Whenever \<open>transformCustomerData\<close> returns an entity, every member of its
  \<open>suborgs\<close> has \<open>customer_type\<close> \<open>sub-org\<close> and an id different from the entity's
  id, and the members are, in order, the raw children that satisfy both conditions: a raw
  child of another kind, or with the id of its parent, is left out.
\<close>

theorem children_invariant:
  assumes "transformCustomerData env data = Inr c"
  shows "(\<forall>s \<in> set (suborgs c). customer_type s = JStr ''sub-org'' \<and> id_c s \<noteq> id_c c) \<and>
         map (\<lambda>s. Inr (id_c s)) (suborgs c) =
           map resolved_id
             (filter (\<lambda>r. resolved_id r \<noteq> Inr (id_c c) \<and> resolved_type r = JStr ''sub-org'')
                (raw_children data))"
proof -
  let ?kept = "filter (\<lambda>r. resolved_id r \<noteq> Inr (id_c c) \<and> resolved_type r = JStr ''sub-org'')
                 (raw_children data)"
  have all2: "list_all2 (\<lambda>r s. transformCustomerData env r = Inr s) ?kept (suborgs c)"
    using transformedSubOrgs_Inr(1) [OF transform_Inr(10) [OF assms]] .
  have "customer_type s = JStr ''sub-org'' \<and> id_c s \<noteq> id_c c" if "s \<in> set (suborgs c)" for s
  proof -
    from all2_right_witness [OF all2 that] obtain r
      where r: "r \<in> set ?kept" and t: "transformCustomerData env r = Inr s" by blast
    from r have "resolved_id r \<noteq> Inr (id_c c)" and "resolved_type r = JStr ''sub-org''" by auto
    with transform_Inr(2,4) [OF t] show ?thesis by simp
  qed
  moreover have "map (\<lambda>s. Inr (id_c s)) (suborgs c) = map resolved_id ?kept"
    using all2 by (rule all2_transform_ids)
  ultimately show ?thesis by blast
qed

text \<open>
  A parent with three raw children: itself, an organisation, and a sub-organisation whose
  id is the number 3. Only the last one is kept.
\<close>

theorem children_invariant_witness:
  "transformCustomerData \<lparr>Date_now = 5000, Date_seconds = (\<lambda>v. JNum ''NaN''), TypeError_message = []\<rparr>
     (JObj [(''id'', JStr ''1''), (''name'', JStr ''A''), (''customer_type'', JStr ''sub-org''),
            (''suborgs'', JArr [
               JObj [(''id'', JStr ''1''), (''name'', JStr ''A''), (''customer_type'', JStr ''sub-org'')],
               JObj [(''id'', JStr ''2''), (''name'', JStr ''B''), (''customer_type'', JStr ''org'')],
               JObj [(''id'', JNum ''3''), (''name'', JStr ''C''), (''customer_type'', JStr ''sub-org'')]])])
   = Inr (Customer ''1'' (JStr ''A'') (JStr ''sub-org'') (JNum ''5'') (JNum ''0'')
            [Customer ''3'' (JStr ''C'') (JStr ''sub-org'') (JNum ''5'') (JNum ''0'') []
               JUndef JUndef (JObj [])]
            JUndef JUndef (JObj []))
   \<and> customer_type (Customer ''3'' (JStr ''C'') (JStr ''sub-org'') (JNum ''5'') (JNum ''0'') []
               JUndef JUndef (JObj [])) = JStr ''sub-org''
   \<and> id_c (Customer ''3'' (JStr ''C'') (JStr ''sub-org'') (JNum ''5'') (JNum ''0'') []
               JUndef JUndef (JObj [])) \<noteq> ''1''"
proof -
  let ?env = "\<lparr>Date_now = 5000, Date_seconds = (\<lambda>v. JNum ''NaN''), TypeError_message = []\<rparr>"
  let ?data = "JObj [(''id'', JStr ''1''), (''name'', JStr ''A''), (''customer_type'', JStr ''sub-org''),
            (''suborgs'', JArr [
               JObj [(''id'', JStr ''1''), (''name'', JStr ''A''), (''customer_type'', JStr ''sub-org'')],
               JObj [(''id'', JStr ''2''), (''name'', JStr ''B''), (''customer_type'', JStr ''org'')],
               JObj [(''id'', JNum ''3''), (''name'', JStr ''C''), (''customer_type'', JStr ''sub-org'')]])]"
  let ?c = "Customer ''1'' (JStr ''A'') (JStr ''sub-org'') (JNum ''5'') (JNum ''0'')
            [Customer ''3'' (JStr ''C'') (JStr ''sub-org'') (JNum ''5'') (JNum ''0'') []
               JUndef JUndef (JObj [])]
            JUndef JUndef (JObj [])"
  have run: "transformCustomerData ?env ?data = Inr ?c" by code_simp
  from children_invariant [OF run] run show ?thesis by simp
qed

section \<open>Properties of the flattened list\<close>

lemma flatten_step_rows: "flatten_step acc customer = acc @ spec_rows customer"
  by (simp add: flatten_step_def spec_rows_def spec_org_row_def spec_suborg_row_def Let_def)

lemma foldl_flatten_step: "foldl flatten_step acc cs = acc @ concat (map spec_rows cs)"
  by (induction cs arbitrary: acc) (simp_all add: flatten_step_rows)

lemma flatten_step_batch_rows:
  "flatten_step_batch acc customer =
     acc @ spec_org_row customer #
       map (\<lambda>(i, c). (spec_suborg_row customer i c)\<lparr>parent_org_id := Some (id_c customer)\<rparr>)
         (enumerate 0 (suborgs customer))"
  by (simp add: flatten_step_batch_def spec_org_row_def spec_suborg_row_def Let_def)

lemma foldl_flatten_step_batch:
  "map (\<lambda>r. (entity r, uniqueKey r)) (foldl flatten_step_batch acc cs) =
   map (\<lambda>r. (entity r, uniqueKey r)) (acc @ concat (map spec_rows cs))"
proof (induction cs arbitrary: acc)
  case Nil
  show ?case by simp
next
  case (Cons c cs)
  have "map (\<lambda>r. (entity r, uniqueKey r)) (flatten_step_batch acc c) =
        map (\<lambda>r. (entity r, uniqueKey r)) (acc @ spec_rows c)"
    by (simp add: flatten_step_batch_rows spec_rows_def split_def)
  then show ?case
    using Cons.IH [of "flatten_step_batch acc c"] by simp
qed

lemma length_spec_rows: "length (spec_rows e) = Suc (length (suborgs e))"
  by (simp add: spec_rows_def)

text \<open>
  C2. For every list of entities the flattened list is the row of the first entity, the
  rows of its children in stored order, the row of the second entity, the rows of its
  children, and so on; the batch page builds the same entities and keys. The number of rows
  is the number of entities plus the number of their children, so an entity without
  children gives one row and no entity gives two.
\<close>

theorem flattened_order:
  "allCustomersFlattened cs = concat (map spec_rows cs) \<and>
   map (\<lambda>r. (entity r, uniqueKey r)) (allCustomersFlattened_batch cs) =
     map (\<lambda>r. (entity r, uniqueKey r)) (concat (map spec_rows cs)) \<and>
   length (allCustomersFlattened cs) =
     length cs + sum_list (map (\<lambda>e. length (suborgs e)) cs)"
proof -
  have "length (concat (map spec_rows cs)) =
        length cs + sum_list (map (\<lambda>e. length (suborgs e)) cs)"
    by (induction cs) (simp_all add: length_spec_rows)
  then show ?thesis
    using foldl_flatten_step [of "[]" cs] foldl_flatten_step_batch [of "[]" cs]
    by (simp add: allCustomersFlattened_def allCustomersFlattened_batch_def)
qed

text \<open>The example of the specification: \<open>[A(children=[A1,A2]), B]\<close> gives \<open>[A, A1, A2, B]\<close>.\<close>

lemma flattened_order_example:
  "map (\<lambda>r. name_c (entity r)) (allCustomersFlattened
     [Customer ''1'' (JStr ''A'') (JStr ''org'') (JNum ''5'') (JNum ''0'')
        [Customer ''3'' (JStr ''A1'') (JStr ''sub-org'') (JNum ''5'') (JNum ''0'') [] JUndef JUndef (JObj []),
         Customer ''4'' (JStr ''A2'') (JStr ''sub-org'') (JNum ''5'') (JNum ''0'') [] JUndef JUndef (JObj [])]
        JUndef JUndef (JObj []),
      Customer ''2'' (JStr ''B'') (JStr ''org'') (JNum ''5'') (JNum ''0'') [] JUndef JUndef (JObj [])])
   = [JStr ''A'', JStr ''A1'', JStr ''A2'', JStr ''B'']"
  by (simp add: allCustomersFlattened_def flatten_step_def with_parent_org_name_def)

lemma keys_spec_rows:
  "map uniqueKey (spec_rows e) =
     (''org-'' @ id_c e) # map (\<lambda>x. ''suborg-'' @ id_c e @ ''-'' @ x) (key_suffixes e)"
  by (simp add: spec_rows_def spec_org_row_def spec_suborg_row_def key_suffixes_def split_def
      del: enumerate_eq_zip)

lemma distinct_keys_spec_rows:
  "distinct (map uniqueKey (spec_rows e)) = distinct (key_suffixes e)"
  by (auto simp: keys_spec_rows distinct_map inj_on_def)

lemma separator_split:
  "a @ h # x = b @ h # y \<Longrightarrow> a = b \<or> prefix (a @ [h]) b \<or> prefix (b @ [h]) a"
proof (induction a arbitrary: b)
  case Nil
  then show ?case by (cases b) auto
next
  case (Cons a0 as)
  then show ?case by (cases b) auto
qed

lemma keys_disjoint:
  assumes "id_c e \<noteq> id_c e'"
    and "\<not> prefix (id_c e @ ''-'') (id_c e')"
    and "\<not> prefix (id_c e' @ ''-'') (id_c e)"
  shows "set (map uniqueKey (spec_rows e)) \<inter> set (map uniqueKey (spec_rows e')) = {}"
  using assms by (auto simp: keys_spec_rows dest: separator_split)

text \<open>
  C3, as amended. The keys of the flattened list are pairwise distinct when the top-level
  ids are pairwise distinct, no top-level id followed by a hyphen begins another top-level
  id, and within each entity the last parts of the keys of its children (the id of the
  child, or its index when the id is empty) are pairwise distinct.
\<close>

theorem keys_distinct_when_ids_are:
  assumes "distinct (map id_c cs)"
    and "\<forall>e \<in> set cs. \<forall>e' \<in> set cs. \<not> prefix (id_c e @ ''-'') (id_c e')"
    and "\<forall>e \<in> set cs. distinct (key_suffixes e)"
  shows "distinct (map uniqueKey (allCustomersFlattened cs))"
proof -
  have "distinct (map uniqueKey (concat (map spec_rows cs)))"
    using assms
  proof (induction cs)
    case Nil
    show ?case by simp
  next
    case (Cons c cs)
    have rest: "distinct (map uniqueKey (concat (map spec_rows cs)))"
      using Cons by simp
    have own: "distinct (map uniqueKey (spec_rows c))"
      using Cons.prems(3) by (simp add: distinct_keys_spec_rows)
    have "set (map uniqueKey (spec_rows c)) \<inter> set (map uniqueKey (spec_rows e)) = {}"
      if "e \<in> set cs" for e
    proof (rule keys_disjoint)
      from Cons.prems(1) that show "id_c c \<noteq> id_c e" by auto
      from Cons.prems(2) that show "\<not> prefix (id_c c @ ''-'') (id_c e)" by simp
      from Cons.prems(2) that show "\<not> prefix (id_c e @ ''-'') (id_c c)" by simp
    qed
    then have "set (map uniqueKey (spec_rows c)) \<inter> set (map uniqueKey (concat (map spec_rows cs))) = {}"
      by auto
    with rest own show ?case by simp
  qed
  then show ?thesis
    by (simp add: allCustomersFlattened_def foldl_flatten_step)
qed

text \<open>Two entities, the first with two children, one of them with an empty id.\<close>

theorem keys_distinct_when_ids_are_witness:
  "map uniqueKey (allCustomersFlattened
     [Customer ''1'' (JStr ''A'') (JStr ''org'') (JNum ''5'') (JNum ''0'')
        [Customer ''3'' (JStr ''A1'') (JStr ''sub-org'') (JNum ''5'') (JNum ''0'') [] JUndef JUndef (JObj []),
         Customer [] (JStr ''A2'') (JStr ''sub-org'') (JNum ''5'') (JNum ''0'') [] JUndef JUndef (JObj [])]
        JUndef JUndef (JObj []),
      Customer ''2'' (JStr ''B'') (JStr ''org'') (JNum ''5'') (JNum ''0'') [] JUndef JUndef (JObj [])])
   = [''org-1'', ''suborg-1-3'', ''suborg-1-1'', ''org-2'']
   \<and> distinct (map uniqueKey (allCustomersFlattened
     [Customer ''1'' (JStr ''A'') (JStr ''org'') (JNum ''5'') (JNum ''0'')
        [Customer ''3'' (JStr ''A1'') (JStr ''sub-org'') (JNum ''5'') (JNum ''0'') [] JUndef JUndef (JObj []),
         Customer [] (JStr ''A2'') (JStr ''sub-org'') (JNum ''5'') (JNum ''0'') [] JUndef JUndef (JObj [])]
        JUndef JUndef (JObj []),
      Customer ''2'' (JStr ''B'') (JStr ''org'') (JNum ''5'') (JNum ''0'') [] JUndef JUndef (JObj [])]))"
proof -
  let ?A1 = "Customer ''3'' (JStr ''A1'') (JStr ''sub-org'') (JNum ''5'') (JNum ''0'') [] JUndef JUndef (JObj [])"
  let ?A2 = "Customer [] (JStr ''A2'') (JStr ''sub-org'') (JNum ''5'') (JNum ''0'') [] JUndef JUndef (JObj [])"
  let ?cs = "[Customer ''1'' (JStr ''A'') (JStr ''org'') (JNum ''5'') (JNum ''0'') [?A1, ?A2] JUndef JUndef (JObj []),
      Customer ''2'' (JStr ''B'') (JStr ''org'') (JNum ''5'') (JNum ''0'') [] JUndef JUndef (JObj [])]"
  have h1: "distinct (map id_c ?cs)" by simp
  have h2: "\<forall>e \<in> set ?cs. \<forall>e' \<in> set ?cs. \<not> prefix (id_c e @ ''-'') (id_c e')" by simp
  have h3: "\<forall>e \<in> set ?cs. distinct (key_suffixes e)"
    by (simp add: key_suffixes_def id_or_index_def string_of_nat.simps digit_char_def)
  have keys: "map uniqueKey (allCustomersFlattened ?cs) = [''org-1'', ''suborg-1-3'', ''suborg-1-1'', ''org-2'']"
    by (simp add: allCustomersFlattened_def flatten_step_def id_or_index_def string_of_nat.simps
        digit_char_def)
  from keys_distinct_when_ids_are [OF h1 h2 h3] keys show ?thesis by simp
qed

text \<open>
  C3 as stated fails: two top-level entities with the same id (the provider does not remove
  duplicates) give the same key twice.
\<close>

theorem keys_not_always_distinct:
  "\<not> distinct (map uniqueKey (allCustomersFlattened
       [Customer ''1'' (JStr ''A'') (JStr ''org'') (JNum ''5'') (JNum ''0'') [] JUndef JUndef (JObj []),
        Customer ''1'' (JStr ''B'') (JStr ''org'') (JNum ''5'') (JNum ''0'') [] JUndef JUndef (JObj [])]))"
  by (simp add: allCustomersFlattened_def flatten_step_def)

section \<open>Properties of the provider\<close>

text \<open>
  C10. \<open>deleteCustomer\<close> leaves no customer with the given id and keeps exactly the other
  customers, unchanged and in their order. \<open>addCustomer\<close> appends the new customer at the
  end when it succeeds and leaves the list alone when it throws. \<open>updateCustomer\<close> keeps the
  length of the list, replaces a customer with the given id by the spread of its fields and
  the updates, and leaves every other customer as it was, at its position.
\<close>

theorem list_operations_frame:
  "(\<forall>c \<in> set (customers (deleteCustomer i st)). id_c c \<noteq> i) \<and>
   customers (deleteCustomer i st) = filter (\<lambda>c. id_c c \<noteq> i) (customers st) \<and>
   (\<forall>st' new. addCustomer env url fetched st = (st', Inr new) \<longrightarrow>
      customers st' = customers st @ [new]) \<and>
   (\<forall>st' e. addCustomer env url fetched st = (st', Inl e) \<longrightarrow> customers st' = customers st) \<and>
   length (customers (updateCustomer i upd st)) = length (customers st) \<and>
   (\<forall>k < length (customers st).
      customers (updateCustomer i upd st) ! k =
        (if id_c (customers st ! k) = i then spread (customers st ! k) upd else customers st ! k))"
  by (auto simp: deleteCustomer_def addCustomer_def updateCustomer_def split: sum.splits)

theorem list_operations_frame_witness:
  "customers (deleteCustomer ''1''
      \<lparr>customers = [Customer ''1'' (JStr ''A'') (JStr ''org'') (JNum ''5'') (JNum ''0'') [] JUndef JUndef (JObj []),
                    Customer ''2'' (JStr ''B'') (JStr ''org'') (JNum ''5'') (JNum ''0'') [] JUndef JUndef (JObj [])],
       loading = False, error = None\<rparr>)
     = [Customer ''2'' (JStr ''B'') (JStr ''org'') (JNum ''5'') (JNum ''0'') [] JUndef JUndef (JObj [])]
   \<and> id_c (Customer ''2'' (JStr ''B'') (JStr ''org'') (JNum ''5'') (JNum ''0'') [] JUndef JUndef (JObj [])) \<noteq> ''1''
   \<and> customers (fst (addCustomer \<lparr>Date_now = 5000, Date_seconds = (\<lambda>v. JNum ''NaN''), TypeError_message = []\<rparr>
        (Some ''https://hooks.example/create'')
        (Inr (Response True ''OK'' (Inr (JObj [(''Id'', JNum ''3''), (''Name'', JStr ''C'')]))))
        \<lparr>customers = [Customer ''1'' (JStr ''A'') (JStr ''org'') (JNum ''5'') (JNum ''0'') [] JUndef JUndef (JObj []),
                      Customer ''2'' (JStr ''B'') (JStr ''org'') (JNum ''5'') (JNum ''0'') [] JUndef JUndef (JObj [])],
         loading = False, error = None\<rparr>))
     = [Customer ''1'' (JStr ''A'') (JStr ''org'') (JNum ''5'') (JNum ''0'') [] JUndef JUndef (JObj []),
        Customer ''2'' (JStr ''B'') (JStr ''org'') (JNum ''5'') (JNum ''0'') [] JUndef JUndef (JObj []),
        Customer ''3'' (JStr ''C'') (JStr ''org'') (JNum ''5'') (JNum ''0'') [] JUndef JUndef (JObj [])]
   \<and> customers (fst (addCustomer \<lparr>Date_now = 5000, Date_seconds = (\<lambda>v. JNum ''NaN''), TypeError_message = []\<rparr>
        (Some ''https://hooks.example/create'')
        (Inr (Response True ''OK'' (Inr (JArr []))))
        \<lparr>customers = [Customer ''1'' (JStr ''A'') (JStr ''org'') (JNum ''5'') (JNum ''0'') [] JUndef JUndef (JObj []),
                      Customer ''2'' (JStr ''B'') (JStr ''org'') (JNum ''5'') (JNum ''0'') [] JUndef JUndef (JObj [])],
         loading = False, error = None\<rparr>))
     = [Customer ''1'' (JStr ''A'') (JStr ''org'') (JNum ''5'') (JNum ''0'') [] JUndef JUndef (JObj []),
        Customer ''2'' (JStr ''B'') (JStr ''org'') (JNum ''5'') (JNum ''0'') [] JUndef JUndef (JObj [])]
   \<and> customers (updateCustomer ''1''
        \<lparr>u_id = None, u_name = Some (JStr ''A+''), u_customer_type = None, u_created = None,
         u_client_count = Some (JNum ''7''), u_suborgs = None, u_parent_org_name = None,
         u_email = None, u_metadata = None\<rparr>
        \<lparr>customers = [Customer ''1'' (JStr ''A'') (JStr ''org'') (JNum ''5'') (JNum ''0'') [] JUndef JUndef (JObj []),
                      Customer ''2'' (JStr ''B'') (JStr ''org'') (JNum ''5'') (JNum ''0'') [] JUndef JUndef (JObj [])],
         loading = False, error = None\<rparr>)
     = [Customer ''1'' (JStr ''A+'') (JStr ''org'') (JNum ''5'') (JNum ''7'') [] JUndef JUndef (JObj []),
        Customer ''2'' (JStr ''B'') (JStr ''org'') (JNum ''5'') (JNum ''0'') [] JUndef JUndef (JObj [])]"
proof -
  let ?A = "Customer ''1'' (JStr ''A'') (JStr ''org'') (JNum ''5'') (JNum ''0'') [] JUndef JUndef (JObj [])"
  let ?B = "Customer ''2'' (JStr ''B'') (JStr ''org'') (JNum ''5'') (JNum ''0'') [] JUndef JUndef (JObj [])"
  let ?C = "Customer ''3'' (JStr ''C'') (JStr ''org'') (JNum ''5'') (JNum ''0'') [] JUndef JUndef (JObj [])"
  let ?st = "\<lparr>customers = [?A, ?B], loading = False, error = None\<rparr>"
  let ?env = "\<lparr>Date_now = 5000, Date_seconds = (\<lambda>v. JNum ''NaN''), TypeError_message = []\<rparr>"
  let ?url = "Some ''https://hooks.example/create''"
  let ?good = "Inr (Response True ''OK'' (Inr (JObj [(''Id'', JNum ''3''), (''Name'', JStr ''C'')])))"
  let ?bad = "Inr (Response True ''OK'' (Inr (JArr [])))"
  let ?upd = "\<lparr>u_id = None, u_name = Some (JStr ''A+''), u_customer_type = None, u_created = None,
         u_client_count = Some (JNum ''7''), u_suborgs = None, u_parent_org_name = None,
         u_email = None, u_metadata = None\<rparr>"
  have t: "transformCustomerData ?env (JObj [(''Id'', JNum ''3''), (''Name'', JStr ''C'')]) = Inr ?C"
    by code_simp
  have good: "addCustomer ?env ?url ?good ?st = (?st\<lparr>customers := [?A, ?B, ?C]\<rparr>, Inr ?C)"
    by (simp add: addCustomer_def addCustomer_try_def configured_def t)
  have bad: "addCustomer ?env ?url ?bad ?st =
      (?st\<lparr>error := Some ''Webhook returned empty array''\<rparr>, Inl (Error ''Webhook returned empty array''))"
    by (simp add: addCustomer_def addCustomer_try_def configured_def message_def)
  have del: "filter (\<lambda>c. id_c c \<noteq> ''1'') (customers ?st) = [?B]" by simp
  have k0: "0 < length (customers ?st)" and k1: "1 < length (customers ?st)" by simp_all
  note frame = list_operations_frame [of "''1''" ?st ?env ?url ?good ?upd]
  note frame_bad = list_operations_frame [of "''1''" ?st ?env ?url ?bad ?upd]
  have upd: "customers (updateCustomer ''1'' ?upd ?st) =
      [Customer ''1'' (JStr ''A+'') (JStr ''org'') (JNum ''5'') (JNum ''7'') [] JUndef JUndef (JObj []), ?B]"
  proof (rule nth_equalityI)
    from frame show "length (customers (updateCustomer ''1'' ?upd ?st)) =
        length [Customer ''1'' (JStr ''A+'') (JStr ''org'') (JNum ''5'') (JNum ''7'') [] JUndef JUndef (JObj []), ?B]"
      by simp
  next
    fix k assume "k < length (customers (updateCustomer ''1'' ?upd ?st))"
    with frame have "k < length (customers ?st)" by simp
    then have "k = 0 \<or> k = 1" by auto
    with frame k0 k1
    show "customers (updateCustomer ''1'' ?upd ?st) ! k =
        [Customer ''1'' (JStr ''A+'') (JStr ''org'') (JNum ''5'') (JNum ''7'') [] JUndef JUndef (JObj []), ?B] ! k"
      by (auto simp: spread_def)
  qed
  from frame del good have "customers (deleteCustomer ''1'' ?st) = [?B]"
    and "customers (fst (addCustomer ?env ?url ?good ?st)) = [?A, ?B, ?C]"
    by simp_all
  moreover from frame_bad bad have "customers (fst (addCustomer ?env ?url ?bad ?st)) = [?A, ?B]"
    by simp
  ultimately show ?thesis using upd by simp
qed

text \<open>
  C7, as amended. When the body of the response is not an array, \<open>refreshCustomers\<close>
  processes no record, leaves \<open>invalidCustomers\<close> empty and throws nothing. When a webhook
  is configured and the response is not \<open>ok\<close>, the body is not read: the customer list stays
  as it was and the error is the message built from the status text. In every other case
  the customer list becomes empty and there is no error.
\<close>

theorem non_list_response_outcome:
  assumes "\<not> Array_isArray data"
  shows "refreshCustomers env webhookUrl (Inr (Response okay txt (Inr data))) st =
           (if configured webhookUrl \<and> \<not> okay
            then (st\<lparr>loading := False, error := Some (''Failed to fetch customers: '' @ txt)\<rparr>, [])
            else (st\<lparr>customers := [], loading := False, error := None\<rparr>, []))"
  using assms
  by (cases data; cases "configured webhookUrl"; cases okay)
     (simp_all add: refreshCustomers_def message_def)

text \<open>
  A body that is an object, once with status 200 and once with status 500, on a state that
  holds one customer and an old error.
\<close>

theorem non_list_response_outcome_witness:
  "\<not> Array_isArray (JObj [(''message'', JStr ''Workflow could not be started'')]) \<and>
   refreshCustomers \<lparr>Date_now = 5000, Date_seconds = (\<lambda>v. JNum ''NaN''), TypeError_message = []\<rparr>
     (Some ''https://hooks.example/customers'')
     (Inr (Response True ''OK'' (Inr (JObj [(''message'', JStr ''Workflow could not be started'')]))))
     \<lparr>customers = [Customer ''1'' (JStr ''A'') (JStr ''org'') (JNum ''5'') (JNum ''0'') [] JUndef JUndef (JObj [])],
      loading = False, error = Some ''old''\<rparr>
   = (\<lparr>customers = [], loading = False, error = None\<rparr>, []) \<and>
   refreshCustomers \<lparr>Date_now = 5000, Date_seconds = (\<lambda>v. JNum ''NaN''), TypeError_message = []\<rparr>
     (Some ''https://hooks.example/customers'')
     (Inr (Response False ''Internal Server Error''
        (Inr (JObj [(''message'', JStr ''Workflow could not be started'')]))))
     \<lparr>customers = [Customer ''1'' (JStr ''A'') (JStr ''org'') (JNum ''5'') (JNum ''0'') [] JUndef JUndef (JObj [])],
      loading = False, error = Some ''old''\<rparr>
   = (\<lparr>customers = [Customer ''1'' (JStr ''A'') (JStr ''org'') (JNum ''5'') (JNum ''0'') [] JUndef JUndef (JObj [])],
       loading = False, error = Some ''Failed to fetch customers: Internal Server Error''\<rparr>, [])"
proof -
  let ?data = "JObj [(''message'', JStr ''Workflow could not be started'')]"
  have h: "\<not> Array_isArray ?data" by simp
  have c: "configured (Some ''https://hooks.example/customers'')" by (simp add: configured_def)
  from non_list_response_outcome [OF h, where okay = True]
       non_list_response_outcome [OF h, where okay = False] h c
  show ?thesis by simp
qed

text \<open>
  C7 as stated fails: a response with status 500 whose body is an object, not a list, does
  not empty the customer list; the customer held before is still there.
\<close>

theorem failed_response_keeps_customers:
  "customers (fst (refreshCustomers
     \<lparr>Date_now = 5000, Date_seconds = (\<lambda>v. JNum ''NaN''), TypeError_message = []\<rparr>
     (Some ''https://hooks.example/customers'')
     (Inr (Response False ''Internal Server Error''
        (Inr (JObj [(''message'', JStr ''Workflow could not be started'')]))))
     \<lparr>customers = [Customer ''1'' (JStr ''A'') (JStr ''org'') (JNum ''5'') (JNum ''0'') [] JUndef JUndef (JObj [])],
      loading = False, error = None\<rparr>))
   = [Customer ''1'' (JStr ''A'') (JStr ''org'') (JNum ''5'') (JNum ''0'') [] JUndef JUndef (JObj [])]
   \<and> \<not> Array_isArray (JObj [(''message'', JStr ''Workflow could not be started'')])"
  by (simp add: refreshCustomers_def configured_def message_def)

text \<open>The same holds when the fetch rejects or the body does not parse.\<close>

lemma failed_fetch_keeps_customers:
  assumes "configured webhookUrl"
  shows "customers (fst (refreshCustomers env webhookUrl (Inl e) st)) = customers st"
    and "customers (fst (refreshCustomers env webhookUrl (Inr (Response okay txt (Inl e))) st)) =
           customers st"
  using assms by (cases okay; simp add: refreshCustomers_def)+

text \<open>
  C1 at a record without any id alias: \<open>String(undefined)\<close> is the string \<open>undefined\<close>, which
  is not empty, so the test for a missing id does not fire and the record is accepted with
  that string as its id; \<open>invalidCustomers\<close> stays empty.
\<close>

theorem record_without_id_is_accepted:
  "refreshCustomers \<lparr>Date_now = 5000, Date_seconds = (\<lambda>v. JNum ''NaN''), TypeError_message = []\<rparr>
     (Some ''https://hooks.example/customers'')
     (Inr (Response True ''OK'' (Inr (JArr [JObj [(''name'', JStr ''Acme'')]]))))
     \<lparr>customers = [], loading = False, error = None\<rparr>
   = (\<lparr>customers = [Customer ''undefined'' (JStr ''Acme'') (JStr ''org'') (JNum ''5'') (JNum ''0'') []
                       JUndef JUndef (JObj [])],
       loading = False, error = None\<rparr>, [])"
proof -
  have "transformCustomerData \<lparr>Date_now = 5000, Date_seconds = (\<lambda>v. JNum ''NaN''), TypeError_message = []\<rparr>
          (JObj [(''name'', JStr ''Acme'')])
        = Inr (Customer ''undefined'' (JStr ''Acme'') (JStr ''org'') (JNum ''5'') (JNum ''0'') []
                 JUndef JUndef (JObj []))"
    by code_simp
  then show ?thesis
    by (simp add: refreshCustomers_def validate_step_def configured_def)
qed

text \<open>
  The same for every record: with all three id aliases \<open>null\<close> or absent the id is never
  empty. The half of C1 about the name holds: a record that gives no truthy name under
  either alias is never pushed to the accepted list.
\<close>

lemma missing_id_is_never_empty:
  assumes "transformCustomerData env rawCustomer = Inr c"
    and "nullish (js_prop rawCustomer ''id'')"
    and "nullish (js_prop rawCustomer ''Id'')"
    and "nullish (js_prop rawCustomer ''ID'')"
  shows "id_c c = ''undefined'' \<or> id_c c = ''null''"
  using assms(2-) transform_Inr(2) [OF assms(1)]
  by (cases "js_prop rawCustomer ''ID''") (auto simp: resolved_id_def js_coalesce_def)

lemma missing_name_is_rejected:
  assumes "\<not> truthy (js_prop rawCustomer ''name'')"
    and "\<not> truthy (js_prop rawCustomer ''Name'')"
  shows "fst (validate_step env (validated, invalids) (k, rawCustomer)) = validated"
    and "\<exists>why. snd (validate_step env (validated, invalids) (k, rawCustomer)) =
           invalids @ [Invalid k why rawCustomer]"
proof -
  have "\<not> truthy (name_c c)" if "transformCustomerData env rawCustomer = Inr c" for c
    using transform_Inr(3) [OF that] assms by (simp add: js_or_def)
  then show "fst (validate_step env (validated, invalids) (k, rawCustomer)) = validated"
    and "\<exists>why. snd (validate_step env (validated, invalids) (k, rawCustomer)) =
           invalids @ [Invalid k why rawCustomer]"
    by (auto simp: validate_step_def split: sum.splits)
qed

text \<open>
  Where the conversions throw: a record whose id is an object with a property \<open>toString\<close>
  of its own, and a record whose \<open>CreatedAt\<close> is such an object. \<open>refreshCustomers\<close> files
  the first under \<open>transform error\<close>.
\<close>

lemma id_with_own_toString_throws:
  "transformCustomerData \<lparr>Date_now = 5000, Date_seconds = (\<lambda>v. JNum ''NaN''), TypeError_message = []\<rparr>
     (JObj [(''id'', JObj [(''toString'', JStr ''x'')]), (''name'', JStr ''A'')])
   = Inl TypeError
   \<and> transformCustomerData \<lparr>Date_now = 5000, Date_seconds = (\<lambda>v. JNum ''NaN''), TypeError_message = []\<rparr>
     (JObj [(''id'', JStr ''1''), (''name'', JStr ''A''),
            (''CreatedAt'', JObj [(''toString'', JStr ''x'')])])
   = Inl TypeError
   \<and> refreshCustomers \<lparr>Date_now = 5000, Date_seconds = (\<lambda>v. JNum ''NaN''), TypeError_message = []\<rparr>
     (Some ''https://hooks.example/customers'')
     (Inr (Response True ''OK''
        (Inr (JArr [JObj [(''id'', JObj [(''toString'', JStr ''x'')]), (''name'', JStr ''A'')]]))))
     \<lparr>customers = [], loading = False, error = None\<rparr>
   = (\<lparr>customers = [], loading = False, error = None\<rparr>,
      [Invalid 0 ''transform error''
         (JObj [(''id'', JObj [(''toString'', JStr ''x'')]), (''name'', JStr ''A'')])])"
proof -
  let ?env = "\<lparr>Date_now = 5000, Date_seconds = (\<lambda>v. JNum ''NaN''), TypeError_message = []\<rparr>"
  have a: "transformCustomerData ?env
     (JObj [(''id'', JObj [(''toString'', JStr ''x'')]), (''name'', JStr ''A'')]) = Inl TypeError"
    by code_simp
  have b: "transformCustomerData ?env
     (JObj [(''id'', JStr ''1''), (''name'', JStr ''A''),
            (''CreatedAt'', JObj [(''toString'', JStr ''x'')])]) = Inl TypeError"
    by code_simp
  from a b show ?thesis
    by (simp add: refreshCustomers_def validate_step_def configured_def)
qed

section \<open>The kind of an entity\<close>

text \<open>
  C6, as amended. The kind of a returned entity is the value of \<open>customer_type\<close> when that is
  truthy, else the value of \<open>customerType\<close> when that is truthy, else \<open>org\<close>; it is never
  falsy. A truthy value is kept as it is, whether or not it is one of the two kinds.
\<close>

theorem kind_defaults_when_falsy:
  assumes "transformCustomerData env data = Inr c"
  shows "customer_type c =
           (if truthy (js_prop data ''customer_type'') then js_prop data ''customer_type''
            else if truthy (js_prop data ''customerType'') then js_prop data ''customerType''
            else JStr ''org'') \<and>
         truthy (customer_type c)"
  using transform_Inr(4) [OF assms] by (simp add: resolved_type_def js_or_def)

theorem kind_defaults_when_falsy_witness:
  "transformCustomerData \<lparr>Date_now = 5000, Date_seconds = (\<lambda>v. JNum ''NaN''), TypeError_message = []\<rparr>
     (JObj [(''id'', JStr ''1''), (''name'', JStr ''A''), (''customer_type'', JNull)])
   = Inr (Customer ''1'' (JStr ''A'') (JStr ''org'') (JNum ''5'') (JNum ''0'') [] JUndef JUndef (JObj []))
   \<and> customer_type (Customer ''1'' (JStr ''A'') (JStr ''org'') (JNum ''5'') (JNum ''0'') []
         JUndef JUndef (JObj [])) = JStr ''org''"
proof -
  let ?env = "\<lparr>Date_now = 5000, Date_seconds = (\<lambda>v. JNum ''NaN''), TypeError_message = []\<rparr>"
  let ?data = "JObj [(''id'', JStr ''1''), (''name'', JStr ''A''), (''customer_type'', JNull)]"
  have run: "transformCustomerData ?env ?data =
      Inr (Customer ''1'' (JStr ''A'') (JStr ''org'') (JNum ''5'') (JNum ''0'') [] JUndef JUndef (JObj []))"
    by code_simp
  from kind_defaults_when_falsy [OF run] run show ?thesis by simp
qed

text \<open>C6 as stated fails: a kind that is neither \<open>org\<close> nor \<open>sub-org\<close> is kept.\<close>

theorem unrecognized_kind_is_kept:
  "transformCustomerData \<lparr>Date_now = 5000, Date_seconds = (\<lambda>v. JNum ''NaN''), TypeError_message = []\<rparr>
     (JObj [(''id'', JStr ''1''), (''name'', JStr ''A''), (''customer_type'', JStr ''enterprise'')])
   = Inr (Customer ''1'' (JStr ''A'') (JStr ''enterprise'') (JNum ''5'') (JNum ''0'') []
            JUndef JUndef (JObj []))
   \<and> customer_type (Customer ''1'' (JStr ''A'') (JStr ''enterprise'') (JNum ''5'') (JNum ''0'') []
         JUndef JUndef (JObj [])) \<noteq> JStr ''org''
   \<and> customer_type (Customer ''1'' (JStr ''A'') (JStr ''enterprise'') (JNum ''5'') (JNum ''0'') []
         JUndef JUndef (JObj [])) \<noteq> JStr ''sub-org''"
proof -
  have "transformCustomerData \<lparr>Date_now = 5000, Date_seconds = (\<lambda>v. JNum ''NaN''), TypeError_message = []\<rparr>
     (JObj [(''id'', JStr ''1''), (''name'', JStr ''A''), (''customer_type'', JStr ''enterprise'')])
   = Inr (Customer ''1'' (JStr ''A'') (JStr ''enterprise'') (JNum ''5'') (JNum ''0'') []
            JUndef JUndef (JObj []))"
    by code_simp
  then show ?thesis by simp
qed

section \<open>Recursion and the clock\<close>

text \<open>
  C9, as amended. The members of \<open>suborgs\<close> are, in order, the results of
  \<open>transformCustomerData\<close> itself on the raw children that pass the filter: a child is
  normalised like any record, its own children included.
\<close>

theorem children_are_normalised_recursively:
  assumes "transformCustomerData env data = Inr c"
  shows "list_all2 (\<lambda>r s. transformCustomerData env r = Inr s)
           (filter (\<lambda>r. resolved_id r \<noteq> Inr (id_c c) \<and> resolved_type r = JStr ''sub-org'')
              (raw_children data))
           (suborgs c)"
  using transformedSubOrgs_Inr(1) [OF transform_Inr(10) [OF assms]] .

text \<open>A parent, its child and the child of that child.\<close>

theorem children_are_normalised_recursively_witness:
  "transformCustomerData \<lparr>Date_now = 5000, Date_seconds = (\<lambda>v. JNum ''NaN''), TypeError_message = []\<rparr>
     (JObj [(''id'', JStr ''1''), (''name'', JStr ''A''),
            (''suborgs'', JArr [
               JObj [(''id'', JStr ''2''), (''name'', JStr ''B''), (''customer_type'', JStr ''sub-org''),
                     (''suborgs'', JArr [
                        JObj [(''id'', JStr ''3''), (''name'', JStr ''C''),
                              (''customer_type'', JStr ''sub-org'')]])]])])
   = Inr (Customer ''1'' (JStr ''A'') (JStr ''org'') (JNum ''5'') (JNum ''0'')
            [Customer ''2'' (JStr ''B'') (JStr ''sub-org'') (JNum ''5'') (JNum ''0'')
               [Customer ''3'' (JStr ''C'') (JStr ''sub-org'') (JNum ''5'') (JNum ''0'') []
                  JUndef JUndef (JObj [])]
               JUndef JUndef (JObj [])]
            JUndef JUndef (JObj []))
   \<and> transformCustomerData \<lparr>Date_now = 5000, Date_seconds = (\<lambda>v. JNum ''NaN''), TypeError_message = []\<rparr>
     (JObj [(''id'', JStr ''2''), (''name'', JStr ''B''), (''customer_type'', JStr ''sub-org''),
            (''suborgs'', JArr [
               JObj [(''id'', JStr ''3''), (''name'', JStr ''C''), (''customer_type'', JStr ''sub-org'')]])])
   = Inr (Customer ''2'' (JStr ''B'') (JStr ''sub-org'') (JNum ''5'') (JNum ''0'')
            [Customer ''3'' (JStr ''C'') (JStr ''sub-org'') (JNum ''5'') (JNum ''0'') []
               JUndef JUndef (JObj [])]
            JUndef JUndef (JObj []))"
proof -
  let ?env = "\<lparr>Date_now = 5000, Date_seconds = (\<lambda>v. JNum ''NaN''), TypeError_message = []\<rparr>"
  let ?raw2 = "JObj [(''id'', JStr ''2''), (''name'', JStr ''B''), (''customer_type'', JStr ''sub-org''),
            (''suborgs'', JArr [
               JObj [(''id'', JStr ''3''), (''name'', JStr ''C''), (''customer_type'', JStr ''sub-org'')]])]"
  let ?raw1 = "JObj [(''id'', JStr ''1''), (''name'', JStr ''A''), (''suborgs'', JArr [?raw2])]"
  let ?c2 = "Customer ''2'' (JStr ''B'') (JStr ''sub-org'') (JNum ''5'') (JNum ''0'')
               [Customer ''3'' (JStr ''C'') (JStr ''sub-org'') (JNum ''5'') (JNum ''0'') []
                  JUndef JUndef (JObj [])]
               JUndef JUndef (JObj [])"
  let ?c1 = "Customer ''1'' (JStr ''A'') (JStr ''org'') (JNum ''5'') (JNum ''0'') [?c2] JUndef JUndef (JObj [])"
  have run: "transformCustomerData ?env ?raw1 = Inr ?c1" by code_simp
  have kept: "filter (\<lambda>r. resolved_id r \<noteq> Inr (id_c ?c1) \<and> resolved_type r = JStr ''sub-org'')
                (raw_children ?raw1) = [?raw2]"
    by (simp add: raw_children_def rawSubOrgs_def resolved_id_def resolved_type_def js_prop_def
        js_or_def js_coalesce_def)
  from children_are_normalised_recursively [OF run]
  have "list_all2 (\<lambda>r s. transformCustomerData ?env r = Inr s) [?raw2] [?c2]"
    unfolding kept by simp
  with run show ?thesis by simp
qed

text \<open>
  C9 as stated fails: the child of a child in the raw record is processed, and the
  sub-organisation of the result has a sub-organisation of its own.
\<close>

theorem grandchildren_are_processed:
  "transformCustomerData \<lparr>Date_now = 5000, Date_seconds = (\<lambda>v. JNum ''NaN''), TypeError_message = []\<rparr>
     (JObj [(''id'', JStr ''1''), (''name'', JStr ''A''),
            (''suborgs'', JArr [
               JObj [(''id'', JStr ''2''), (''name'', JStr ''B''), (''customer_type'', JStr ''sub-org''),
                     (''suborgs'', JArr [
                        JObj [(''id'', JStr ''3''), (''name'', JStr ''C''),
                              (''customer_type'', JStr ''sub-org'')]])]])])
   = Inr (Customer ''1'' (JStr ''A'') (JStr ''org'') (JNum ''5'') (JNum ''0'')
            [Customer ''2'' (JStr ''B'') (JStr ''sub-org'') (JNum ''5'') (JNum ''0'')
               [Customer ''3'' (JStr ''C'') (JStr ''sub-org'') (JNum ''5'') (JNum ''0'') []
                  JUndef JUndef (JObj [])]
               JUndef JUndef (JObj [])]
            JUndef JUndef (JObj []))
   \<and> suborgs (Customer ''2'' (JStr ''B'') (JStr ''sub-org'') (JNum ''5'') (JNum ''0'')
               [Customer ''3'' (JStr ''C'') (JStr ''sub-org'') (JNum ''5'') (JNum ''0'') []
                  JUndef JUndef (JObj [])]
               JUndef JUndef (JObj [])) \<noteq> []"
proof -
  have "transformCustomerData \<lparr>Date_now = 5000, Date_seconds = (\<lambda>v. JNum ''NaN''), TypeError_message = []\<rparr>
     (JObj [(''id'', JStr ''1''), (''name'', JStr ''A''),
            (''suborgs'', JArr [
               JObj [(''id'', JStr ''2''), (''name'', JStr ''B''), (''customer_type'', JStr ''sub-org''),
                     (''suborgs'', JArr [
                        JObj [(''id'', JStr ''3''), (''name'', JStr ''C''),
                              (''customer_type'', JStr ''sub-org'')]])]])])
   = Inr (Customer ''1'' (JStr ''A'') (JStr ''org'') (JNum ''5'') (JNum ''0'')
            [Customer ''2'' (JStr ''B'') (JStr ''sub-org'') (JNum ''5'') (JNum ''0'')
               [Customer ''3'' (JStr ''C'') (JStr ''sub-org'') (JNum ''5'') (JNum ''0'') []
                  JUndef JUndef (JObj [])]
               JUndef JUndef (JObj [])]
            JUndef JUndef (JObj []))"
    by code_simp
  then show ?thesis by simp
qed

lemma mapE_related:
  assumes "\<And>x. x \<in> set xs \<Longrightarrow> on_result F (f x) = on_result F (g x)"
  shows "on_result (map F) (mapE f xs) = on_result (map F) (mapE g xs)"
  using assms
proof (induction xs)
  case Nil
  show ?case by simp
next
  case (Cons x xs)
  from Cons.prems have head: "on_result F (f x) = on_result F (g x)" by simp
  from Cons have tail: "on_result (map F) (mapE f xs) = on_result (map F) (mapE g xs)" by simp
  from head tail show ?case
    by (cases "f x"; cases "g x"; cases "mapE f xs"; cases "mapE g xs") simp_all
qed

lemma transformedSubOrgs_related:
  assumes "\<And>r. r \<in> set (raw_children data) \<Longrightarrow> resolved_id r \<noteq> Inr pid \<Longrightarrow>
             resolved_type r = JStr ''sub-org'' \<Longrightarrow>
             on_result F (transformCustomerData env1 r) = on_result F (transformCustomerData env2 r)"
  shows "on_result (map F) (transformedSubOrgs env1 pid data) =
         on_result (map F) (transformedSubOrgs env2 pid data)"
proof (cases "rawSubOrgs data")
  case (JArr xs)
  show ?thesis
  proof (cases "filterE (suborg_filter pid) xs")
    case (Inl e)
    with JArr show ?thesis by (simp add: transformedSubOrgs_def)
  next
    case (Inr ys)
    from filterE_suborg_filter(1) [OF Inr] JArr
    have "ys = filter (\<lambda>r. resolved_id r \<noteq> Inr pid \<and> resolved_type r = JStr ''sub-org'')
                 (raw_children data)"
      by (simp add: raw_children_def)
    with assms have "on_result (map F) (mapE (transformCustomerData env1) ys) =
                     on_result (map F) (mapE (transformCustomerData env2) ys)"
      by (intro mapE_related) auto
    with JArr Inr show ?thesis by (simp add: transformedSubOrgs_def)
  qed
qed (simp_all add: transformedSubOrgs_def)

lemma transform_related:
  assumes shape: "\<And>i n t cr cc subs p e m.
             H (Customer i n t cr cc subs p e m) = Customer i n t (G cr) cc (map F subs) p e m"
    and subs: "\<And>i. resolved_id data = Inr i \<Longrightarrow>
             on_result (map F) (transformedSubOrgs env1 i data) =
             on_result (map F) (transformedSubOrgs env2 i data)"
    and stamp: "on_result G (resolved_created env1 data) = on_result G (resolved_created env2 data)"
  shows "on_result H (transformCustomerData env1 data) =
         on_result H (transformCustomerData env2 data)"
proof (cases "resolved_id data")
  case (Inl e)
  then show ?thesis by (simp add: transform_unfold [of _ data])
next
  case (Inr i)
  from subs [OF Inr] stamp Inr show ?thesis
    by (cases "transformedSubOrgs env1 i data"; cases "transformedSubOrgs env2 i data";
        cases "resolved_created env1 data"; cases "resolved_created env2 data")
       (simp_all add: transform_unfold [of _ data] shape)
qed

lemma new_Date_seconds_clock:
  "new_Date_seconds (env\<lparr>Date_now := s\<rparr>) v = new_Date_seconds (env\<lparr>Date_now := t\<rparr>) v"
  by (cases "js_String v") (simp_all add: new_Date_seconds_def)

lemma resolved_created_throws_alike:
  "on_result (\<lambda>cr. v) (resolved_created (env\<lparr>Date_now := s\<rparr>) data) =
   on_result (\<lambda>cr. v) (resolved_created (env\<lparr>Date_now := t\<rparr>) data)"
  by (simp add: resolved_created_def new_Date_seconds_clock [where env = env and s = s and t = t])

lemma resolved_created_same_second:
  "s div 1000 = t div 1000 \<Longrightarrow>
     resolved_created (env\<lparr>Date_now := s\<rparr>) data = resolved_created (env\<lparr>Date_now := t\<rparr>) data"
  by (simp add: resolved_created_def new_Date_seconds_clock [where env = env and s = s and t = t])

lemma resolved_created_stamped:
  "truthy (js_prop data ''created'') \<or> truthy (js_prop data ''CreatedAt'') \<Longrightarrow>
     resolved_created (env\<lparr>Date_now := s\<rparr>) data = resolved_created (env\<lparr>Date_now := t\<rparr>) data"
  by (auto simp: resolved_created_def new_Date_seconds_clock [where env = env and s = s and t = t])

lemma on_result_same: "on_result (\<lambda>c. c) x = on_result (\<lambda>c. c) y \<Longrightarrow> x = y"
  by (cases x; cases y) simp_all

lemma clock_only_in_created:
  "on_result (with_created v) (transformCustomerData (env\<lparr>Date_now := s\<rparr>) data) =
   on_result (with_created v) (transformCustomerData (env\<lparr>Date_now := t\<rparr>) data)"
proof (induction data rule: measure_induct_rule [of size])
  case (less data)
  show ?case
  proof (rule transform_related [where G = "\<lambda>cr. v" and F = "with_created v"])
    show "on_result (map (with_created v)) (transformedSubOrgs (env\<lparr>Date_now := s\<rparr>) i data) =
          on_result (map (with_created v)) (transformedSubOrgs (env\<lparr>Date_now := t\<rparr>) i data)" for i
      by (rule transformedSubOrgs_related) (simp add: less size_raw_children)
  qed (simp_all add: resolved_created_throws_alike)
qed

lemma same_second_same_result:
  assumes "s div 1000 = t div 1000"
  shows "transformCustomerData (env\<lparr>Date_now := s\<rparr>) data =
         transformCustomerData (env\<lparr>Date_now := t\<rparr>) data"
proof (induction data rule: measure_induct_rule [of size])
  case (less data)
  have "on_result (\<lambda>c. c) (transformCustomerData (env\<lparr>Date_now := s\<rparr>) data) =
        on_result (\<lambda>c. c) (transformCustomerData (env\<lparr>Date_now := t\<rparr>) data)"
  proof (rule transform_related [where G = "\<lambda>cr. cr" and F = "\<lambda>c. c"])
    show "on_result (map (\<lambda>c. c)) (transformedSubOrgs (env\<lparr>Date_now := s\<rparr>) i data) =
          on_result (map (\<lambda>c. c)) (transformedSubOrgs (env\<lparr>Date_now := t\<rparr>) i data)" for i
      by (rule transformedSubOrgs_related) (simp add: less size_raw_children)
  qed (simp_all add: resolved_created_same_second [OF assms])
  then show ?case by (rule on_result_same)
qed

lemma stamped_is_clock_free:
  "stamped data \<Longrightarrow>
     transformCustomerData (env\<lparr>Date_now := s\<rparr>) data =
     transformCustomerData (env\<lparr>Date_now := t\<rparr>) data"
proof (induction data rule: measure_induct_rule [of size])
  case (less data)
  from less.prems have own: "truthy (js_prop data ''created'') \<or> truthy (js_prop data ''CreatedAt'')"
    by (subst (asm) stamped.simps) simp
  have "on_result (\<lambda>c. c) (transformCustomerData (env\<lparr>Date_now := s\<rparr>) data) =
        on_result (\<lambda>c. c) (transformCustomerData (env\<lparr>Date_now := t\<rparr>) data)"
  proof (rule transform_related [where G = "\<lambda>cr. cr" and F = "\<lambda>c. c"])
    fix i assume i: "resolved_id data = Inr i"
    show "on_result (map (\<lambda>c. c)) (transformedSubOrgs (env\<lparr>Date_now := s\<rparr>) i data) =
          on_result (map (\<lambda>c. c)) (transformedSubOrgs (env\<lparr>Date_now := t\<rparr>) i data)"
    proof (rule transformedSubOrgs_related)
      fix r assume r: "r \<in> set (raw_children data)" "resolved_id r \<noteq> Inr i"
        "resolved_type r = JStr ''sub-org''"
      with less.prems i have "stamped r"
        by (subst (asm) stamped.simps) simp
      with r(1) show "on_result (\<lambda>c. c) (transformCustomerData (env\<lparr>Date_now := s\<rparr>) r) =
                      on_result (\<lambda>c. c) (transformCustomerData (env\<lparr>Date_now := t\<rparr>) r)"
        by (simp add: less.IH size_raw_children)
    qed
  qed (simp_all add: resolved_created_stamped [OF own, where s = s and t = t])
  then show ?case by (rule on_result_same)
qed

lemma validate_step_accepted:
  "fst (validate_step env (validated, invalids) entry) =
   fst (validate_step env (validated, invalids') entry)"
  by (cases entry) (simp add: validate_step_def split: sum.splits)

lemma validate_step_pair:
  "validate_step env acc entry =
     (fst (validate_step env acc entry), snd (validate_step env acc entry))"
  by simp

lemma accepted_without_diagnostics:
  "fst (foldl (validate_step env) (validated, invalids) entries) =
   fst (foldl (validate_step env) (validated, invalids') entries)"
proof (induction entries arbitrary: validated invalids invalids')
  case Nil
  show ?case by simp
next
  case (Cons entry entries)
  let ?a = "validate_step env (validated, invalids) entry"
  let ?b = "validate_step env (validated, invalids') entry"
  have "fst ?a = fst ?b" by (rule validate_step_accepted)
  then have "fst (foldl (validate_step env) (fst ?a, snd ?a) entries) =
             fst (foldl (validate_step env) (fst ?b, snd ?b) entries)"
    using Cons.IH [of "fst ?a" "snd ?a" "snd ?b"] by simp
  then show ?case by simp
qed

text \<open>
  C8, as amended. With the same date parser, two calls on the same record at the clock
  readings \<open>s\<close> and \<open>t\<close> both throw or both return. What they return is the same entity
  when the record carries its own timestamp (in the record and in every raw child that
  passes the filter, at every depth), and when both readings fall in the same second; in
  every case the two entities are equal once \<open>created\<close> is set aside in the entity and in
  its sub-organisations. What \<open>refreshCustomers\<close> records in \<open>invalidCustomers\<close> never
  changes the accepted list.
\<close>

theorem clock_enters_only_through_created:
  "(stamped data \<longrightarrow>
      transformCustomerData (env\<lparr>Date_now := s\<rparr>) data =
      transformCustomerData (env\<lparr>Date_now := t\<rparr>) data) \<and>
   (s div 1000 = t div 1000 \<longrightarrow>
      transformCustomerData (env\<lparr>Date_now := s\<rparr>) data =
      transformCustomerData (env\<lparr>Date_now := t\<rparr>) data) \<and>
   on_result (with_created v) (transformCustomerData (env\<lparr>Date_now := s\<rparr>) data) =
   on_result (with_created v) (transformCustomerData (env\<lparr>Date_now := t\<rparr>) data) \<and>
   fst (foldl (validate_step env) (validated, invalids) entries) =
   fst (foldl (validate_step env) (validated, invalids') entries)"
  using stamped_is_clock_free same_second_same_result clock_only_in_created
    accepted_without_diagnostics
  by blast

text \<open>
  A record with \<open>CreatedAt\<close> and a stamped sub-organisation, at 5 and at 9 seconds: the same
  entity. A record without a timestamp, at 5.2 and 5.9 seconds: the same entity, created
  at 5.
\<close>

theorem clock_enters_only_through_created_witness:
  "transformCustomerData
     \<lparr>Date_now = 5000, Date_seconds = (\<lambda>v. JNum ''1704067200''), TypeError_message = []\<rparr>
     (JObj [(''id'', JStr ''1''), (''name'', JStr ''A''), (''CreatedAt'', JStr ''2024-01-01T00:00:00Z''),
            (''suborgs'', JArr [
               JObj [(''id'', JStr ''2''), (''name'', JStr ''B''), (''customer_type'', JStr ''sub-org''),
                     (''created'', JNum ''1704067300'')]])])
   = transformCustomerData
     \<lparr>Date_now = 9000, Date_seconds = (\<lambda>v. JNum ''1704067200''), TypeError_message = []\<rparr>
     (JObj [(''id'', JStr ''1''), (''name'', JStr ''A''), (''CreatedAt'', JStr ''2024-01-01T00:00:00Z''),
            (''suborgs'', JArr [
               JObj [(''id'', JStr ''2''), (''name'', JStr ''B''), (''customer_type'', JStr ''sub-org''),
                     (''created'', JNum ''1704067300'')]])])
   \<and> transformCustomerData
     \<lparr>Date_now = 5000, Date_seconds = (\<lambda>v. JNum ''1704067200''), TypeError_message = []\<rparr>
     (JObj [(''id'', JStr ''1''), (''name'', JStr ''A''), (''CreatedAt'', JStr ''2024-01-01T00:00:00Z''),
            (''suborgs'', JArr [
               JObj [(''id'', JStr ''2''), (''name'', JStr ''B''), (''customer_type'', JStr ''sub-org''),
                     (''created'', JNum ''1704067300'')]])])
   = Inr (Customer ''1'' (JStr ''A'') (JStr ''org'') (JNum ''1704067200'') (JNum ''0'')
            [Customer ''2'' (JStr ''B'') (JStr ''sub-org'') (JNum ''1704067300'') (JNum ''0'') []
               JUndef JUndef (JObj [])]
            JUndef JUndef (JObj []))
   \<and> (5200::nat) div 1000 = 5900 div 1000
   \<and> transformCustomerData \<lparr>Date_now = 5200, Date_seconds = (\<lambda>v. JNum ''NaN''), TypeError_message = []\<rparr>
     (JObj [(''id'', JStr ''1''), (''name'', JStr ''A'')])
   = transformCustomerData \<lparr>Date_now = 5900, Date_seconds = (\<lambda>v. JNum ''NaN''), TypeError_message = []\<rparr>
     (JObj [(''id'', JStr ''1''), (''name'', JStr ''A'')])
   \<and> transformCustomerData \<lparr>Date_now = 5200, Date_seconds = (\<lambda>v. JNum ''NaN''), TypeError_message = []\<rparr>
     (JObj [(''id'', JStr ''1''), (''name'', JStr ''A'')])
   = Inr (Customer ''1'' (JStr ''A'') (JStr ''org'') (JNum ''5'') (JNum ''0'') [] JUndef JUndef (JObj []))"
proof -
  let ?parser = "\<lparr>Date_now = 0, Date_seconds = (\<lambda>v. JNum ''1704067200''), TypeError_message = []\<rparr>"
  let ?env = "\<lparr>Date_now = 0, Date_seconds = (\<lambda>v. JNum ''NaN''), TypeError_message = []\<rparr>"
  let ?dated = "JObj [(''id'', JStr ''1''), (''name'', JStr ''A''), (''CreatedAt'', JStr ''2024-01-01T00:00:00Z''),
            (''suborgs'', JArr [
               JObj [(''id'', JStr ''2''), (''name'', JStr ''B''), (''customer_type'', JStr ''sub-org''),
                     (''created'', JNum ''1704067300'')]])]"
  let ?data = "JObj [(''id'', JStr ''1''), (''name'', JStr ''A'')]"
  have dated: "stamped ?dated" by code_simp
  have same: "(5200::nat) div 1000 = 5900 div 1000" by simp
  have run_dated: "transformCustomerData
      \<lparr>Date_now = 5000, Date_seconds = (\<lambda>v. JNum ''1704067200''), TypeError_message = []\<rparr> ?dated
      = Inr (Customer ''1'' (JStr ''A'') (JStr ''org'') (JNum ''1704067200'') (JNum ''0'')
            [Customer ''2'' (JStr ''B'') (JStr ''sub-org'') (JNum ''1704067300'') (JNum ''0'') []
               JUndef JUndef (JObj [])]
            JUndef JUndef (JObj []))"
    by code_simp
  have run: "transformCustomerData \<lparr>Date_now = 5200, Date_seconds = (\<lambda>v. JNum ''NaN''), TypeError_message = []\<rparr> ?data
      = Inr (Customer ''1'' (JStr ''A'') (JStr ''org'') (JNum ''5'') (JNum ''0'') [] JUndef JUndef (JObj []))"
    by code_simp
  have a: "transformCustomerData
      \<lparr>Date_now = 5000, Date_seconds = (\<lambda>v. JNum ''1704067200''), TypeError_message = []\<rparr> ?dated
      = transformCustomerData
      \<lparr>Date_now = 9000, Date_seconds = (\<lambda>v. JNum ''1704067200''), TypeError_message = []\<rparr> ?dated"
    using conjunct1 [OF clock_enters_only_through_created
                          [where data = ?dated and env = ?parser and s = 5000 and t = 9000]]
      dated
    by simp
  have b: "transformCustomerData
      \<lparr>Date_now = 5200, Date_seconds = (\<lambda>v. JNum ''NaN''), TypeError_message = []\<rparr> ?data
      = transformCustomerData
      \<lparr>Date_now = 5900, Date_seconds = (\<lambda>v. JNum ''NaN''), TypeError_message = []\<rparr> ?data"
    using conjunct1 [OF conjunct2 [OF clock_enters_only_through_created
                          [where data = ?data and env = ?env and s = 5200 and t = 5900]]]
      same
    by simp
  from a b run_dated run same show ?thesis by simp
qed

text \<open>
  C8 as stated fails: the same record, without a timestamp, normalised at 5 and at 9
  seconds gives two entities that differ in \<open>created\<close>.
\<close>

theorem result_depends_on_the_clock:
  "transformCustomerData \<lparr>Date_now = 5000, Date_seconds = (\<lambda>v. JNum ''NaN''), TypeError_message = []\<rparr>
     (JObj [(''id'', JStr ''1''), (''name'', JStr ''A'')])
   \<noteq> transformCustomerData \<lparr>Date_now = 9000, Date_seconds = (\<lambda>v. JNum ''NaN''), TypeError_message = []\<rparr>
     (JObj [(''id'', JStr ''1''), (''name'', JStr ''A'')])"
proof -
  have "transformCustomerData \<lparr>Date_now = 5000, Date_seconds = (\<lambda>v. JNum ''NaN''), TypeError_message = []\<rparr>
     (JObj [(''id'', JStr ''1''), (''name'', JStr ''A'')])
     = Inr (Customer ''1'' (JStr ''A'') (JStr ''org'') (JNum ''5'') (JNum ''0'') [] JUndef JUndef (JObj []))"
    by code_simp
  moreover have "transformCustomerData \<lparr>Date_now = 9000, Date_seconds = (\<lambda>v. JNum ''NaN''), TypeError_message = []\<rparr>
     (JObj [(''id'', JStr ''1''), (''name'', JStr ''A'')])
     = Inr (Customer ''1'' (JStr ''A'') (JStr ''org'') (JNum ''9'') (JNum ''0'') [] JUndef JUndef (JObj []))"
    by code_simp
  ultimately show ?thesis by simp
qed

section \<open>A second normalisation\<close>

lemma all2_right_all:
  "list_all2 P xs ys \<Longrightarrow> (\<And>x y. x \<in> set xs \<Longrightarrow> P x y \<Longrightarrow> Q y) \<Longrightarrow> \<forall>y \<in> set ys. Q y"
  by (induction xs ys rule: list_all2_induct) auto

lemma transform_normalized: "transformCustomerData env data = Inr c \<Longrightarrow> normalized c"
proof (induction data arbitrary: c rule: measure_induct_rule [of size])
  case (less data)
  note run = less.prems
  let ?kept = "filter (\<lambda>r. resolved_id r \<noteq> Inr (id_c c) \<and> resolved_type r = JStr ''sub-org'')
                 (raw_children data)"
  have all2: "list_all2 (\<lambda>r s. transformCustomerData env r = Inr s) ?kept (suborgs c)"
    using transformedSubOrgs_Inr(1) [OF transform_Inr(10) [OF run]] .
  have subs: "\<forall>s \<in> set (suborgs c). customer_type s = JStr ''sub-org'' \<and> id_c s \<noteq> id_c c \<and> normalized s"
  proof (rule all2_right_all [OF all2])
    fix r s assume r: "r \<in> set ?kept" and t: "transformCustomerData env r = Inr s"
    from r have "size r < size data" by (simp add: size_raw_children)
    then have "normalized s" using t by (rule less.IH)
    moreover from r transform_Inr(2,4) [OF t]
    have "customer_type s = JStr ''sub-org''" and "id_c s \<noteq> id_c c" by simp_all
    ultimately show "customer_type s = JStr ''sub-org'' \<and> id_c s \<noteq> id_c c \<and> normalized s"
      by simp
  qed
  from transform_Inr(3,4,6,9) [OF run] subs show ?case
    by (cases c) (auto simp: js_or_def resolved_type_def)
qed

lemma filterE_all_pass: "(\<And>x. x \<in> set xs \<Longrightarrow> p x = Inr True) \<Longrightarrow> filterE p xs = Inr xs"
  by (induction xs) simp_all

lemma mapE_inverse: "(\<And>y. y \<in> set ys \<Longrightarrow> f (g y) = Inr y) \<Longrightarrow> mapE f (map g ys) = Inr ys"
  by (induction ys) simp_all

lemma customer_data_props:
  "js_prop (customer_data c) ''id'' = JStr (id_c c)"
  "js_prop (customer_data c) ''name'' = name_c c"
  "js_prop (customer_data c) ''Name'' = JUndef"
  "js_prop (customer_data c) ''customer_type'' = customer_type c"
  "js_prop (customer_data c) ''customerType'' = JUndef"
  "js_prop (customer_data c) ''created'' = created c"
  "js_prop (customer_data c) ''CreatedAt'' = JUndef"
  "js_prop (customer_data c) ''client_count'' = client_count c"
  "js_prop (customer_data c) ''clientCount'' = JUndef"
  "js_prop (customer_data c) ''ClientCount'' = JUndef"
  "js_prop (customer_data c) ''suborgs'' = JArr (map customer_data (suborgs c))"
  "js_prop (customer_data c) ''parent_org_name'' = parent_org_name c"
  "js_prop (customer_data c) ''parentOrgName'' = JUndef"
  "js_prop (customer_data c) ''ParentOrgName'' = JUndef"
  "js_prop (customer_data c) ''email'' = email c"
  "js_prop (customer_data c) ''Email'' = JUndef"
  "js_prop (customer_data c) ''metadata'' = metadata c"
  by (cases c; simp add: js_prop_def)+

lemma customer_data_not_nullish: "\<not> nullish (customer_data c)"
  by (cases c) simp

declare customer_data.simps [simp del]

lemma rawSubOrgs_customer_data: "rawSubOrgs (customer_data c) = JArr (map customer_data (suborgs c))"
  by (simp add: rawSubOrgs_def customer_data_props js_or_def)

lemma resolved_id_customer_data: "resolved_id (customer_data c) = Inr (id_c c)"
  by (simp add: resolved_id_def customer_data_props js_coalesce_def)

lemma resolved_type_customer_data:
  "truthy (customer_type c) \<Longrightarrow> resolved_type (customer_data c) = customer_type c"
  by (simp add: resolved_type_def customer_data_props js_or_def)

lemma resolved_created_customer_data:
  "truthy (created c) \<Longrightarrow> resolved_created env (customer_data c) = Inr (created c)"
  by (simp add: resolved_created_def customer_data_props)

lemma suborg_filter_customer_data:
  "customer_type s = JStr ''sub-org'' \<Longrightarrow> id_c s \<noteq> i \<Longrightarrow>
     suborg_filter i (customer_data s) = Inr True"
  using resolved_id_customer_data [of s] resolved_type_customer_data [of s]
  by (simp add: suborg_filter_def customer_data_not_nullish Let_def resolved_id_def resolved_type_def)

lemma second_call_is_identity:
  "normalized c \<Longrightarrow> settled c \<Longrightarrow> transformCustomerData env (customer_data c) = Inr c"
proof (induction c)
  case (Customer i n t cr cc subs p e m)
  let ?c = "Customer i n t cr cc subs p e m"
  have pass: "filterE (suborg_filter i) (map customer_data subs) = Inr (map customer_data subs)"
    using Customer.prems(1) by (intro filterE_all_pass) (auto simp: suborg_filter_customer_data)
  have again: "mapE (transformCustomerData env) (map customer_data subs) = Inr subs"
    using Customer by (intro mapE_inverse) auto
  have raw: "rawSubOrgs (customer_data ?c) = JArr (map customer_data subs)"
    by (simp add: rawSubOrgs_customer_data)
  have subs: "transformedSubOrgs env i (customer_data ?c) = Inr subs"
    using pass again by (simp add: transformedSubOrgs_def raw)
  have kind: "resolved_type (customer_data ?c) = t"
    using Customer.prems(1) resolved_type_customer_data [of ?c] by simp
  have stamp: "resolved_created env (customer_data ?c) = Inr cr"
    using Customer.prems(2) resolved_created_customer_data [of ?c] by simp
  have ident: "resolved_id (customer_data ?c) = Inr i"
    using resolved_id_customer_data [of ?c] by simp
  from Customer.prems show ?case
    unfolding transform_unfold [of env "customer_data ?c"]
    by (auto simp: subs kind stamp ident customer_data_not_nullish customer_data_props js_or_def)
qed

text \<open>
  C5, as amended. An entity returned by \<open>transformCustomerData\<close> in which \<open>created\<close> is
  truthy and \<open>parent_org_name\<close> and \<open>email\<close> are truthy or \<open>undefined\<close>, at every depth, is
  returned unchanged by a second call, whatever the clock reads then.
\<close>

theorem idempotent_on_settled:
  assumes "transformCustomerData env data = Inr c"
    and "settled c"
  shows "transformCustomerData env' (customer_data c) = Inr c"
  using transform_normalized [OF assms(1)] assms(2) by (rule second_call_is_identity)

text \<open>
  A record under the capitalised aliases, with a timestamp, and a sub-organisation with an
  e-mail address; the second call is made four seconds later.
\<close>

theorem idempotent_on_settled_witness:
  "transformCustomerData \<lparr>Date_now = 5000, Date_seconds = (\<lambda>v. JNum ''NaN''), TypeError_message = []\<rparr>
     (JObj [(''Id'', JNum ''7''), (''Name'', JStr ''A''), (''created'', JNum ''1700000000''),
            (''SubOrgs'', JArr [
               JObj [(''id'', JStr ''8''), (''name'', JStr ''B''), (''customerType'', JStr ''sub-org''),
                     (''created'', JNum ''1700000001''), (''email'', JStr ''b@example.org'')]])])
   = Inr (Customer ''7'' (JStr ''A'') (JStr ''org'') (JNum ''1700000000'') (JNum ''0'')
            [Customer ''8'' (JStr ''B'') (JStr ''sub-org'') (JNum ''1700000001'') (JNum ''0'') []
               JUndef (JStr ''b@example.org'') (JObj [])]
            JUndef JUndef (JObj []))
   \<and> transformCustomerData \<lparr>Date_now = 9000, Date_seconds = (\<lambda>v. JNum ''NaN''), TypeError_message = []\<rparr>
     (customer_data
        (Customer ''7'' (JStr ''A'') (JStr ''org'') (JNum ''1700000000'') (JNum ''0'')
            [Customer ''8'' (JStr ''B'') (JStr ''sub-org'') (JNum ''1700000001'') (JNum ''0'') []
               JUndef (JStr ''b@example.org'') (JObj [])]
            JUndef JUndef (JObj [])))
   = Inr (Customer ''7'' (JStr ''A'') (JStr ''org'') (JNum ''1700000000'') (JNum ''0'')
            [Customer ''8'' (JStr ''B'') (JStr ''sub-org'') (JNum ''1700000001'') (JNum ''0'') []
               JUndef (JStr ''b@example.org'') (JObj [])]
            JUndef JUndef (JObj []))"
proof -
  let ?env = "\<lparr>Date_now = 5000, Date_seconds = (\<lambda>v. JNum ''NaN''), TypeError_message = []\<rparr>"
  let ?later = "\<lparr>Date_now = 9000, Date_seconds = (\<lambda>v. JNum ''NaN''), TypeError_message = []\<rparr>"
  let ?data = "JObj [(''Id'', JNum ''7''), (''Name'', JStr ''A''), (''created'', JNum ''1700000000''),
            (''SubOrgs'', JArr [
               JObj [(''id'', JStr ''8''), (''name'', JStr ''B''), (''customerType'', JStr ''sub-org''),
                     (''created'', JNum ''1700000001''), (''email'', JStr ''b@example.org'')]])]"
  let ?c = "Customer ''7'' (JStr ''A'') (JStr ''org'') (JNum ''1700000000'') (JNum ''0'')
            [Customer ''8'' (JStr ''B'') (JStr ''sub-org'') (JNum ''1700000001'') (JNum ''0'') []
               JUndef (JStr ''b@example.org'') (JObj [])]
            JUndef JUndef (JObj [])"
  have run: "transformCustomerData ?env ?data = Inr ?c" by code_simp
  have ok: "settled ?c" by simp
  from idempotent_on_settled [OF run ok, of ?later] run show ?thesis by simp
qed

text \<open>
  C5 as stated fails: an empty e-mail address under the alias \<open>Email\<close> is stored as the
  empty string by the first call, and the second call, which reads \<open>email\<close> and then the
  absent \<open>Email\<close>, stores \<open>undefined\<close>.
\<close>

theorem second_call_changes_email:
  "transformCustomerData \<lparr>Date_now = 5000, Date_seconds = (\<lambda>v. JNum ''NaN''), TypeError_message = []\<rparr>
     (JObj [(''id'', JStr ''1''), (''name'', JStr ''A''), (''Email'', JStr [])])
   = Inr (Customer ''1'' (JStr ''A'') (JStr ''org'') (JNum ''5'') (JNum ''0'') []
            JUndef (JStr []) (JObj []))
   \<and> transformCustomerData \<lparr>Date_now = 5000, Date_seconds = (\<lambda>v. JNum ''NaN''), TypeError_message = []\<rparr>
     (customer_data (Customer ''1'' (JStr ''A'') (JStr ''org'') (JNum ''5'') (JNum ''0'') []
            JUndef (JStr []) (JObj [])))
   = Inr (Customer ''1'' (JStr ''A'') (JStr ''org'') (JNum ''5'') (JNum ''0'') []
            JUndef JUndef (JObj []))
   \<and> Customer ''1'' (JStr ''A'') (JStr ''org'') (JNum ''5'') (JNum ''0'') [] JUndef JUndef (JObj [])
     \<noteq> Customer ''1'' (JStr ''A'') (JStr ''org'') (JNum ''5'') (JNum ''0'') [] JUndef (JStr []) (JObj [])"
proof -
  let ?env = "\<lparr>Date_now = 5000, Date_seconds = (\<lambda>v. JNum ''NaN''), TypeError_message = []\<rparr>"
  have "transformCustomerData ?env
          (JObj [(''id'', JStr ''1''), (''name'', JStr ''A''), (''Email'', JStr [])])
        = Inr (Customer ''1'' (JStr ''A'') (JStr ''org'') (JNum ''5'') (JNum ''0'') []
                 JUndef (JStr []) (JObj []))"
    by code_simp
  moreover have "transformCustomerData ?env
          (customer_data (Customer ''1'' (JStr ''A'') (JStr ''org'') (JNum ''5'') (JNum ''0'') []
            JUndef (JStr []) (JObj [])))
        = Inr (Customer ''1'' (JStr ''A'') (JStr ''org'') (JNum ''5'') (JNum ''0'') []
                 JUndef JUndef (JObj []))"
    by code_simp
  ultimately show ?thesis by simp
qed

text \<open>
  The timestamp drifts in the same way when the first call stores a falsy \<open>created\<close>: here
  the date parser gives 0 for the record's \<open>CreatedAt\<close> (the epoch itself), and the second
  call, nine seconds after the epoch, stores 9.
\<close>

lemma second_call_replaces_created_zero:
  "transformCustomerData \<lparr>Date_now = 9000, Date_seconds = (\<lambda>v. JNum ''0''), TypeError_message = []\<rparr>
     (JObj [(''id'', JStr ''1''), (''name'', JStr ''A''), (''CreatedAt'', JStr ''1970-01-01T00:00:00Z'')])
   = Inr (Customer ''1'' (JStr ''A'') (JStr ''org'') (JNum ''0'') (JNum ''0'') []
            JUndef JUndef (JObj []))
   \<and> transformCustomerData \<lparr>Date_now = 9000, Date_seconds = (\<lambda>v. JNum ''0''), TypeError_message = []\<rparr>
     (customer_data (Customer ''1'' (JStr ''A'') (JStr ''org'') (JNum ''0'') (JNum ''0'') []
            JUndef JUndef (JObj [])))
   = Inr (Customer ''1'' (JStr ''A'') (JStr ''org'') (JNum ''9'') (JNum ''0'') []
            JUndef JUndef (JObj []))"
proof -
  let ?env = "\<lparr>Date_now = 9000, Date_seconds = (\<lambda>v. JNum ''0''), TypeError_message = []\<rparr>"
  have "transformCustomerData ?env
     (JObj [(''id'', JStr ''1''), (''name'', JStr ''A''), (''CreatedAt'', JStr ''1970-01-01T00:00:00Z'')])
   = Inr (Customer ''1'' (JStr ''A'') (JStr ''org'') (JNum ''0'') (JNum ''0'') []
            JUndef JUndef (JObj []))"
    by code_simp
  moreover have "transformCustomerData ?env
     (customer_data (Customer ''1'' (JStr ''A'') (JStr ''org'') (JNum ''0'') (JNum ''0'') []
            JUndef JUndef (JObj [])))
   = Inr (Customer ''1'' (JStr ''A'') (JStr ''org'') (JNum ''9'') (JNum ''0'') []
            JUndef JUndef (JObj []))"
    by code_simp
  ultimately show ?thesis by simp
qed

end
